theory Spec2Isabelle
  imports Main "HOL-Library.Word"
begin

section \<open>Instants and durations\<close>

text \<open>
  Go's \<open>time.Duration\<close> is an \<open>int64\<close> count of nanoseconds. A \<open>time.Time\<close> is an
  instant; it is modelled as the (unbounded) number of nanoseconds since the zero instant
  (January 1, year 1, 00:00:00 UTC), the value \<open>IsZero\<close> tests for. The range of
  \<open>time.Time\<close> (64-bit seconds) is far wider than the one of a duration, so only
  \<open>Sub\<close>, which yields a duration, saturates.
\<close>

type_synonym Time = int
type_synonym Duration = int

definition minDuration :: Duration where
  "minDuration = - (2 ^ 63)"

definition maxDuration :: Duration where
  "maxDuration = 2 ^ 63 - 1"

definition Millisecond :: Duration where
  "Millisecond = 1000000"

definition Second :: Duration where
  "Second = 1000 * Millisecond"

definition zeroTime :: Time where
  "zeroTime = 0"

definition IsZero :: "Time \<Rightarrow> bool" where
  "IsZero t \<longleftrightarrow> t = zeroTime"

definition Before :: "Time \<Rightarrow> Time \<Rightarrow> bool" where
  "Before t u \<longleftrightarrow> t < u"

definition time_Add :: "Time \<Rightarrow> Duration \<Rightarrow> Time" where
  "time_Add t d = t + d"

text \<open>\<open>t.Sub(u)\<close>: the duration \<open>t - u\<close>, or the largest (smallest) duration when the
  difference does not fit an \<open>int64\<close>.\<close>

definition time_Sub :: "Time \<Rightarrow> Time \<Rightarrow> Duration" where
  "time_Sub t u =
     (let d = t - u in
      if d < minDuration then minDuration
      else if maxDuration < d then maxDuration
      else d)"

text \<open>\<open>int64\<close> arithmetic wraps around; Go's \<open>/\<close> truncates towards zero and panics
  on a zero divisor (\<open>None\<close>).\<close>

definition int64_wrap :: "int \<Rightarrow> int" where
  "int64_wrap x = (x + 2 ^ 63) mod 2 ^ 64 - 2 ^ 63"

definition int64_quo :: "int \<Rightarrow> int \<Rightarrow> int option" where
  "int64_quo a b =
     (if b = 0 then None
      else Some (int64_wrap (sgn a * sgn b * (\<bar>a\<bar> div \<bar>b\<bar>))))"

section \<open>Addresses\<close>

text \<open>
  A \<open>net.IP\<close> is a byte slice; \<open>None\<close> is the nil slice. \<open>To4\<close>, \<open>To16\<close>, \<open>Equal\<close> and
  \<open>IsUnspecified\<close> are the standard library's, on the bytes; a nil result is \<open>None\<close>.
\<close>

type_synonym byte = "8 word"
type_synonym IP = "byte list option"

definition ip_bytes :: "IP \<Rightarrow> byte list" where
  "ip_bytes ip = (case ip of None \<Rightarrow> [] | Some bs \<Rightarrow> bs)"

definition v4InV6Prefix :: "byte list" where
  "v4InV6Prefix = [0, 0, 0, 0, 0, 0, 0, 0, 0, 0, 0xff, 0xff]"

definition IPv4zero :: "byte list" where
  "IPv4zero = v4InV6Prefix @ [0, 0, 0, 0]"

definition IPv6unspecified :: "byte list" where
  "IPv6unspecified = [0, 0, 0, 0, 0, 0, 0, 0, 0, 0, 0, 0, 0, 0, 0, 0]"

definition isZeros :: "byte list \<Rightarrow> bool" where
  "isZeros p = list_all (\<lambda>b. b = 0) p"

definition To4 :: "IP \<Rightarrow> IP" where
  "To4 ip =
     (let bs = ip_bytes ip in
      if length bs = 4 then Some bs
      else if length bs = 16 \<and> isZeros (take 10 bs) \<and> bs ! 10 = 0xff \<and> bs ! 11 = 0xff
        then Some (drop 12 bs)
      else None)"

definition To16 :: "IP \<Rightarrow> IP" where
  "To16 ip =
     (let bs = ip_bytes ip in
      if length bs = 4 then Some (v4InV6Prefix @ bs)
      else if length bs = 16 then Some bs
      else None)"

definition ip_Equal :: "byte list \<Rightarrow> byte list \<Rightarrow> bool" where
  "ip_Equal ip x =
     (if length ip = length x then ip = x
      else if length ip = 4 \<and> length x = 16 then take 12 x = v4InV6Prefix \<and> ip = drop 12 x
      else if length ip = 16 \<and> length x = 4 then take 12 ip = v4InV6Prefix \<and> drop 12 ip = x
      else False)"

definition IsUnspecified :: "byte list \<Rightarrow> bool" where
  "IsUnspecified ip \<longleftrightarrow> ip_Equal ip IPv4zero \<or> ip_Equal ip IPv6unspecified"

record SRTAddr =
  IP :: IP
  Port :: int
  Zone :: string

text \<open>
  A \<open>net.Addr\<close> interface value that is not nil: a \<open>*SRTAddr\<close> (the pointer may be
  nil, \<open>None\<close>), or a value of some other implementation, given by what its
  \<open>Network()\<close> and \<open>String()\<close> return. The nil interface is \<open>None\<close> of \<open>Addr option\<close>.
  An \<open>addrList\<close> is a slice of them; the nil slice is the empty list.
\<close>

datatype Addr = SRTAddrPtr "SRTAddr option" | OtherAddr string string

type_synonym addrList = "Addr list"

fun Network :: "Addr \<Rightarrow> string" where
  "Network (SRTAddrPtr a) = ''srt''"
| "Network (OtherAddr n s) = n"

definition isWildcard :: "SRTAddr option \<Rightarrow> bool" where
  "isWildcard a =
     (case a of
        None \<Rightarrow> True
      | Some s \<Rightarrow> (case IP s of None \<Rightarrow> True | Some bs \<Rightarrow> IsUnspecified bs))"

definition matchAddrFamily :: "SRTAddr \<Rightarrow> IP \<Rightarrow> bool" where
  "matchAddrFamily a x \<longleftrightarrow>
     To4 (IP a) \<noteq> None \<and> To4 x \<noteq> None \<or>
     To16 (IP a) \<noteq> None \<and> To4 (IP a) = None \<and> To16 x \<noteq> None \<and> To4 x = None"

section \<open>Errors\<close>

text \<open>
  Go strings whose text is computed outside the source files stay symbolic: the text of an
  error (\<open>e.Error()\<close>) and the rendering of an endpoint (\<open>a.String()\<close>, which goes
  through \<open>ipEmptyString\<close>, \<open>itoa\<close> and \<open>net.JoinHostPort\<close>).

  The sentinel errors \<open>poll.ErrTimeout\<close>, \<open>errMissingAddress\<close>, \<open>errNoSuitableAddress\<close>,
  \<open>context.Canceled\<close> and \<open>context.DeadlineExceeded\<close> are constructors; \<open>OtherError\<close>
  is any error a collaborator reports (connection refused, ...). A nil \<open>error\<close> is
  \<open>None\<close> of \<open>error option\<close>.
\<close>

datatype error =
    ErrTimeout
  | errMissingAddress
  | errNoSuitableAddress
  | Canceled
  | DeadlineExceeded
  | OtherError string
  | UnknownNetworkError string
  | AddrError gostring gostring
  | OpError string string "Addr option" "Addr option" error
and gostring =
    Lit string
  | ErrorText error
  | EndpointText SRTAddr

fun Addr_String :: "Addr \<Rightarrow> gostring" where
  "Addr_String (SRTAddrPtr None) = Lit ''<nil>''"
| "Addr_String (SRTAddrPtr (Some a)) = EndpointText a"
| "Addr_String (OtherAddr n s) = Lit s"

section \<open>The deadline of one attempt\<close>

text \<open>\<open>partialDeadline\<close> of dial.go. The result is \<open>None\<close> when the division panics
  (\<open>addrsRemaining = 0\<close>).\<close>

definition saneMinimum :: Duration where
  "saneMinimum = 2 * Second"

definition partialDeadline :: "Time \<Rightarrow> Time \<Rightarrow> int \<Rightarrow> (Time \<times> error option) option" where
  "partialDeadline now deadline addrsRemaining =
     (if IsZero deadline then Some (deadline, None)
      else
        let timeRemaining = time_Sub deadline now in
        if timeRemaining \<le> 0 then Some (zeroTime, Some ErrTimeout)
        else
          (case int64_quo timeRemaining addrsRemaining of
             None \<Rightarrow> None
           | Some timeout \<Rightarrow>
               let timeout' =
                 (if timeout < saneMinimum
                  then (if timeRemaining < saneMinimum then timeRemaining else saneMinimum)
                  else timeout)
               in Some (time_Add now timeout', None)))"

section \<open>Resolving the candidates\<close>

text \<open>
  A context, as far as the dialer reads it: its deadline (the zero instant when there is
  none, which is what \<open>deadline, _ := ctx.Deadline()\<close> yields) and, for the \<open>i\<close>-th
  poll of \<open>ctx.Done()\<close>, whether the cancellation signal has fired by then; if it has,
  \<open>ctx_Err\<close> gives \<open>ctx.Err()\<close>.
\<close>

record Context =
  ctx_Deadline :: Time
  ctx_Err :: "nat \<Rightarrow> error option"

text \<open>
  The \<open>Resolver\<close> receiver. Its method \<open>internetAddrList\<close> (literal or symbolic host
  lookup) is not part of the source files: it is a field here, any function.
\<close>

record Resolver =
  internetAddrList :: "Context \<Rightarrow> string \<Rightarrow> string \<Rightarrow> addrList \<times> error option"

text \<open>Modelled from the spec: \<open>internetAddrList\<close> is the collaborator that
  "returns candidate endpoints", an EndpointList, which the data model of the spec declares
  "never empty on success". This is the contract a resolver is assumed to keep where a
  property depends on what the collaborator returns.\<close>

definition neverEmptyOnSuccess :: "Resolver \<Rightarrow> bool" where
  "neverEmptyOnSuccess r \<longleftrightarrow>
     (\<forall>ctx afnet addr addrs. internetAddrList r ctx afnet addr = (addrs, None) \<longrightarrow> addrs \<noteq> [])"

definition parseNetwork :: "Context \<Rightarrow> string \<Rightarrow> string \<times> int \<times> error option" where
  "parseNetwork ctx network =
     (if network = ''srt'' \<or> network = ''srt4'' \<or> network = ''srt6''
      then (network, 0, None)
      else ([], 0, Some (UnknownNetworkError network)))"

text \<open>
  The filtering loop of \<open>resolveAddrList\<close> (\<open>naddrs := addrs[:0]\<close>, then one pass over
  \<open>addrs\<close>). It ends in the filtered list, in the early return on a candidate of another
  network kind, or in a panic: \<open>srt.IP\<close> dereferences the hint as a \<open>*SRTAddr\<close>, which is
  nil when the hint is of another type, and \<open>matchAddrFamily\<close> dereferences its receiver.
  The slice \<open>naddrs\<close> shares the array of \<open>addrs\<close>, but it is written only at positions
  the pass has read already.
\<close>

datatype filtered = Filtered addrList | Mismatched error | NilDereference

fun filterByHint :: "Addr \<Rightarrow> SRTAddr option \<Rightarrow> bool \<Rightarrow> addrList \<Rightarrow> addrList \<Rightarrow> filtered" where
  "filterByHint hint srt wildcard naddrs [] = Filtered naddrs"
| "filterByHint hint srt wildcard naddrs (addr # addrs) =
     (if Network addr \<noteq> Network hint
      then Mismatched (AddrError (Lit ''mismatched local address type'') (Addr_String hint))
      else
        (case addr of
           SRTAddrPtr a \<Rightarrow>
             (if \<not> wildcard \<and> \<not> isWildcard a then
                (case (a, srt) of
                   (Some a', Some srt') \<Rightarrow>
                     if \<not> matchAddrFamily a' (IP srt')
                     then filterByHint hint srt wildcard naddrs addrs
                     else filterByHint hint srt wildcard (naddrs @ [addr]) addrs
                 | _ \<Rightarrow> NilDereference)
              else filterByHint hint srt wildcard (naddrs @ [addr]) addrs)
         | OtherAddr n s \<Rightarrow> filterByHint hint srt wildcard naddrs addrs))"

text \<open>\<open>resolveAddrList\<close>: the pair \<open>(addrList, error)\<close> it returns, or \<open>None\<close> for the
  panic.\<close>

definition resolveAddrList ::
  "Resolver \<Rightarrow> Context \<Rightarrow> string \<Rightarrow> string \<Rightarrow> string \<Rightarrow> Addr option
     \<Rightarrow> (addrList \<times> error option) option" where
  "resolveAddrList r ctx op network addr hint =
     (case parseNetwork ctx network of
        (afnet, proto, Some err) \<Rightarrow> Some ([], Some err)
      | (afnet, proto, None) \<Rightarrow>
          if op = ''dial'' \<and> addr = [] then Some ([], Some errMissingAddress)
          else
            (case internetAddrList r ctx afnet addr of
               (addrs, err) \<Rightarrow>
                 (case hint of
                    None \<Rightarrow> Some (addrs, err)
                  | Some h \<Rightarrow>
                      if err \<noteq> None \<or> op \<noteq> ''dial'' then Some (addrs, err)
                      else
                        let srt = (case h of SRTAddrPtr p \<Rightarrow> p | OtherAddr n s \<Rightarrow> None);
                            wildcard = (case h of SRTAddrPtr p \<Rightarrow> isWildcard p
                                        | OtherAddr n s \<Rightarrow> False)
                        in
                          (case filterByHint h srt wildcard [] addrs of
                             NilDereference \<Rightarrow> None
                           | Mismatched e \<Rightarrow> Some ([], Some e)
                           | Filtered naddrs \<Rightarrow>
                               if length naddrs = 0
                               then Some ([], Some (AddrError (ErrorText errNoSuitableAddress)
                                                       (Addr_String h)))
                               else Some (naddrs, None)))))"

section \<open>Dialling\<close>

text \<open>
  A \<open>net.Conn\<close> interface value: nil (\<open>None\<close>) or a \<open>*SRTConn\<close>, itself a pointer that may
  be nil. Connections are told apart by a number.
\<close>

type_synonym SRTConnPtr = "nat option"
type_synonym netConn = "SRTConnPtr option"

text \<open>The parameters of a dial: the fields of the embedded \<open>Dialer\<close> that the dialling
  functions read, and the network and address.\<close>

record dialParam =
  LocalAddr :: "Addr option"
  FallbackDelay :: Duration
  network :: string
  address :: string

definition fallbackDelay :: "dialParam \<Rightarrow> Duration" where
  "fallbackDelay d = (if FallbackDelay d > 0 then FallbackDelay d else 300 * Millisecond)"

text \<open>
  What lies outside the source files, as \<open>dialSerial\<close> meets it in its \<open>i\<close>-th iteration:
  the clock (\<open>time.Now()\<close>), the low-level connect \<open>dialSRT\<close>, and the function \<open>mapErr\<close>.
  One iteration reads the clock once and connects at most once, so the index \<open>i\<close> lets
  each be any behaviour.
\<close>

record World =
  timeNow :: "nat \<Rightarrow> Time"
  dialSRT :: "nat \<Rightarrow> Context \<Rightarrow> string \<Rightarrow> SRTAddr option \<Rightarrow> SRTAddr option
                \<Rightarrow> SRTConnPtr \<times> error option"
  mapErr :: "error \<Rightarrow> error"

text \<open>\<open>dialSingle\<close>. The trace hooks (\<open>ConnectStart\<close>, \<open>ConnectDone\<close>) observe the call
  and do not change its result; they are left out.\<close>

definition dialSingle ::
  "World \<Rightarrow> nat \<Rightarrow> Context \<Rightarrow> dialParam \<Rightarrow> Addr \<Rightarrow> netConn \<times> error option" where
  "dialSingle w i ctx dp ra =
     (let la = LocalAddr dp in
      case ra of
        SRTAddrPtr ra' \<Rightarrow>
          (let la' = (case la of Some (SRTAddrPtr p) \<Rightarrow> p | _ \<Rightarrow> None) in
           case dialSRT w i ctx (network dp) la' ra' of
             (c, Some err) \<Rightarrow> (None, Some (OpError ''dial'' (network dp) la (Some ra) err))
           | (c, None) \<Rightarrow> (Some c, None))
      | OtherAddr n s \<Rightarrow>
          (None, Some (OpError ''dial'' (network dp) la (Some ra)
             (AddrError (Lit ''unexpected address type'') (Lit (address dp))))))"

text \<open>The context of one attempt: \<open>ctx\<close>, or \<open>ctx\<close> with the earlier deadline.\<close>

definition dialCtx :: "Context \<Rightarrow> Time \<Rightarrow> Context" where
  "dialCtx ctx partialDeadline' =
     (if Before partialDeadline' (ctx_Deadline ctx)
      then ctx\<lparr>ctx_Deadline := partialDeadline'\<rparr>
      else ctx)"

text \<open>The code after the loop of \<open>dialSerial\<close>.\<close>

definition dialSerial_end :: "dialParam \<Rightarrow> error option \<Rightarrow> netConn \<times> error option" where
  "dialSerial_end dp firstErr =
     (case firstErr of
        None \<Rightarrow> (None, Some (OpError ''dial'' (network dp) None None errMissingAddress))
      | Some e \<Rightarrow> (None, Some e))"

text \<open>
  The loop of \<open>dialSerial\<close>, from iteration \<open>i\<close> on, over the candidates \<open>ras[i:]\<close>, so that
  \<open>len(ras) - i\<close> is the length of the list. Beside the pair \<open>(net.Conn, error)\<close> that the
  function returns, the model gives the log of the attempts: the calls of \<open>dialSingle\<close> in
  order, each with its candidate and what it returned. \<open>None\<close> is a panic.
\<close>

type_synonym attempt = "Addr \<times> netConn \<times> error option"

fun dialSerial_loop ::
  "World \<Rightarrow> Context \<Rightarrow> dialParam \<Rightarrow> nat \<Rightarrow> error option \<Rightarrow> addrList
     \<Rightarrow> (attempt list \<times> netConn \<times> error option) option" where
  "dialSerial_loop w ctx dp i firstErr [] = Some ([], dialSerial_end dp firstErr)"
| "dialSerial_loop w ctx dp i firstErr (ra # ras) =
     (case ctx_Err ctx i of
        Some ctxErr \<Rightarrow>
          Some ([], None, Some (OpError ''dial'' (network dp) (LocalAddr dp) (Some ra)
                                  (mapErr w ctxErr)))
      | None \<Rightarrow>
          (case partialDeadline (timeNow w i) (ctx_Deadline ctx) (int (length (ra # ras))) of
             None \<Rightarrow> None
           | Some (partialDeadline', Some err) \<Rightarrow>
               Some ([], dialSerial_end dp
                 (case firstErr of
                    None \<Rightarrow> Some (OpError ''dial'' (network dp) (LocalAddr dp) (Some ra) err)
                  | Some e \<Rightarrow> Some e))
           | Some (partialDeadline', None) \<Rightarrow>
               (case dialSingle w i (dialCtx ctx partialDeadline') dp ra of
                  (c, None) \<Rightarrow> Some ([(ra, c, None)], c, None)
                | (c, Some err) \<Rightarrow>
                    (case dialSerial_loop w ctx dp (Suc i)
                            (case firstErr of None \<Rightarrow> Some err | Some e \<Rightarrow> Some e) ras of
                       None \<Rightarrow> None
                     | Some (attempts, result) \<Rightarrow>
                         Some ((ra, c, Some err) # attempts, result)))))"

definition dialSerial ::
  "World \<Rightarrow> Context \<Rightarrow> dialParam \<Rightarrow> addrList
     \<Rightarrow> (attempt list \<times> netConn \<times> error option) option" where
  "dialSerial w ctx dp ras = dialSerial_loop w ctx dp 0 None ras"

section \<open>Racing two lists of candidates\<close>

text \<open>
  \<open>dialParallel\<close>: the value a racer sends (\<open>startRacer\<close> builds it from what its
  \<open>dialSerial\<close> returned), and the two variables \<open>primary\<close> and \<open>fallback\<close> of the loop.
\<close>

record dialResult =
  res_Conn :: netConn
  res_error :: "error option"
  res_primary :: bool
  res_done :: bool

definition zeroResult :: dialResult where
  "zeroResult = \<lparr>res_Conn = None, res_error = None, res_primary = False, res_done = False\<rparr>"

definition startRacer_result :: "bool \<Rightarrow> netConn \<Rightarrow> error option \<Rightarrow> dialResult" where
  "startRacer_result primary c err =
     \<lparr>res_Conn = c, res_error = err, res_primary = primary, res_done = True\<rparr>"

text \<open>
  The \<open>select\<close> of the loop takes what comes first: the fallback timer, or the result of a
  racer. An event list is the order in which they come. \<open>Received primary c err stopped\<close>
  is the result of the racer \<open>primary\<close>, whose \<open>dialSerial\<close> returned \<open>(c, err)\<close>; \<open>stopped\<close>
  is what \<open>fallbackTimer.Stop()\<close> answers if the loop calls it on this result (true while
  the timer has not expired). The loop starts the fallback racer and resets the timer;
  these are recorded in \<open>effects\<close>.
\<close>

datatype event = FallbackTimer | Received bool netConn "error option" bool

datatype effect = StartRacer bool | NewTimer Duration | TimerReset Duration

record racing =
  primary :: dialResult
  fallback :: dialResult
  effects :: "effect list"

datatype outcome = Returned netConn "error option" | Pending racing

fun dialParallel_loop :: "racing \<Rightarrow> event list \<Rightarrow> outcome" where
  "dialParallel_loop s [] = Pending s"
| "dialParallel_loop s (FallbackTimer # events) =
     dialParallel_loop (s\<lparr>effects := effects s @ [StartRacer False]\<rparr>) events"
| "dialParallel_loop s (Received p c err stopped # events) =
     (let res = startRacer_result p c err in
      if res_error res = None then Returned (res_Conn res) None
      else
        let s' = (if res_primary res then s\<lparr>primary := res\<rparr> else s\<lparr>fallback := res\<rparr>) in
        if res_done (primary s') \<and> res_done (fallback s')
        then Returned None (res_error (primary s'))
        else if res_primary res \<and> stopped
        then dialParallel_loop (s'\<lparr>effects := effects s' @ [TimerReset 0]\<rparr>) events
        else dialParallel_loop s' events)"

text \<open>The state in which the loop is entered: the primary racer started, the timer set.\<close>

definition racing_start :: "dialParam \<Rightarrow> racing" where
  "racing_start dp =
     \<lparr>primary = zeroResult, fallback = zeroResult,
      effects = [StartRacer True, NewTimer (fallbackDelay dp)]\<rparr>"

text \<open>\<open>dialParallel\<close> on a given order of events; \<open>None\<close> is a panic of the serial dial.
  The outcome \<open>Pending\<close> is the loop waiting in its \<open>select\<close> when the events end.\<close>

definition dialParallel ::
  "World \<Rightarrow> Context \<Rightarrow> dialParam \<Rightarrow> addrList \<Rightarrow> addrList \<Rightarrow> event list \<Rightarrow> outcome option" where
  "dialParallel w ctx dp primaries fallbacks events =
     (if length fallbacks = 0 then
        (case dialSerial w ctx dp primaries of
           None \<Rightarrow> None
         | Some (attempts, c, err) \<Rightarrow> Some (Returned c err))
      else Some (dialParallel_loop (racing_start dp) events))"

section \<open>Concrete inputs\<close>

text \<open>A context with no deadline that is never cancelled; a world in which every connect
  is refused; a dial with no local address; IPv4 endpoints \<open>10.0.0.d:9000\<close>.\<close>

definition background :: Context where
  "background = \<lparr>ctx_Deadline = zeroTime, ctx_Err = (\<lambda>i. None)\<rparr>"

definition refusingWorld :: World where
  "refusingWorld =
     \<lparr>timeNow = (\<lambda>i. 1000),
      dialSRT = (\<lambda>i ctx net la ra. (None, Some (OtherError ''connection refused''))),
      mapErr = (\<lambda>e. e)\<rparr>"

definition plainDial :: dialParam where
  "plainDial = \<lparr>LocalAddr = None, FallbackDelay = 0, network = ''srt'', address = ''host:9000''\<rparr>"

definition endpoint4 :: "byte \<Rightarrow> Addr" where
  "endpoint4 d = SRTAddrPtr (Some \<lparr>IP = Some [10, 0, 0, d], Port = 9000, Zone = []\<rparr>)"

definition cancelledAfterFirst :: Context where
  "cancelledAfterFirst =
     \<lparr>ctx_Deadline = zeroTime, ctx_Err = (\<lambda>i. if i = 0 then None else Some Canceled)\<rparr>"

definition fourSeconds :: Context where
  "fourSeconds = \<lparr>ctx_Deadline = 1000 + 4 * Second, ctx_Err = (\<lambda>i. None)\<rparr>"

definition slowWorld :: World where
  "slowWorld =
     \<lparr>timeNow = (\<lambda>i. 1000 + int i * (5 * Second)),
      dialSRT = (\<lambda>i ctx net la ra. (None, Some (OtherError ''connection refused''))),
      mapErr = (\<lambda>e. e)\<rparr>"

definition secondConnects :: World where
  "secondConnects =
     \<lparr>timeNow = (\<lambda>i. 1000),
      dialSRT = (\<lambda>i ctx net la ra.
         if i = 1 then (Some 7, None) else (None, Some (OtherError ''connection refused''))),
      mapErr = (\<lambda>e. e)\<rparr>"

definition refused :: "Addr \<Rightarrow> error" where
  "refused ra = OpError ''dial'' ''srt'' None (Some ra) (OtherError ''connection refused'')"

definition refusedPrimary :: dialResult where
  "refusedPrimary =
     \<lparr>res_Conn = None, res_error = Some (refused (endpoint4 1)), res_primary = True,
      res_done = True\<rparr>"

text \<open>A resolver whose collaborator finds a fixed list of candidates; the IPv4 hints
  \<open>10.0.0.1\<close> and \<open>0.0.0.0\<close> (wildcard); the IPv6 endpoint \<open>[2001:db8::1]:9000\<close> and the unspecified IPv6 address
  \<open>[::]:9000\<close>.\<close>

definition fixedResolver :: "addrList \<Rightarrow> Resolver" where
  "fixedResolver addrs = \<lparr>internetAddrList = (\<lambda>ctx afnet addr. (addrs, None))\<rparr>"

definition hint4 :: SRTAddr where
  "hint4 = \<lparr>IP = Some [10, 0, 0, 1], Port = 0, Zone = []\<rparr>"

definition anyLocal4 :: SRTAddr where
  "anyLocal4 = \<lparr>IP = Some [0, 0, 0, 0], Port = 0, Zone = []\<rparr>"

definition endpoint6 :: Addr where
  "endpoint6 = SRTAddrPtr (Some
     \<lparr>IP = Some [0x20, 0x01, 0x0d, 0xb8, 0, 0, 0, 0, 0, 0, 0, 0, 0, 0, 0, 1],
      Port = 9000, Zone = []\<rparr>)"

definition unspecified6 :: SRTAddr where
  "unspecified6 = \<lparr>IP = Some [0, 0, 0, 0, 0, 0, 0, 0, 0, 0, 0, 0, 0, 0, 0, 0], Port = 9000, Zone = []\<rparr>"

section \<open>The hint filter as a predicate\<close>

text \<open>What the filtering loop is to compute, for a hint \<open>h\<close> that is an endpoint and not
  wildcard: an endpoint is kept when it is wildcard or of the family of the hint, and
  nothing else is. The loop \<open>filterByHint\<close> is compared with \<open>filter (keptByHint h)\<close>
  below.\<close>

definition keptByHint :: "SRTAddr \<Rightarrow> Addr \<Rightarrow> bool" where
  "keptByHint h a =
     (case a of
        SRTAddrPtr None \<Rightarrow> True
      | SRTAddrPtr (Some a') \<Rightarrow> isWildcard (Some a') \<or> matchAddrFamily a' (IP h)
      | OtherAddr n s \<Rightarrow> False)"

section \<open>The deadline of one attempt: properties\<close>

lemma time_Sub_range: "minDuration \<le> time_Sub t u \<and> time_Sub t u \<le> maxDuration"
  by (simp add: time_Sub_def Let_def minDuration_def maxDuration_def)

lemma int64_wrap_id: "minDuration \<le> x \<Longrightarrow> x \<le> maxDuration \<Longrightarrow> int64_wrap x = x"
  by (simp add: int64_wrap_def minDuration_def maxDuration_def)

text \<open>On a positive duration and a positive count, Go's quotient is the mathematical one.\<close>

lemma int64_quo_pos:
  assumes "0 < a" "a \<le> maxDuration" "0 < n"
  shows "int64_quo a n = Some (a div n)"
proof -
  have "0 \<le> a div n" using assms by (simp add: pos_imp_zdiv_nonneg_iff)
  moreover have "a div n \<le> a" using assms by (simp add: int_div_le_self)
  ultimately have "int64_wrap (a div n) = a div n"
    using assms by (intro int64_wrap_id) (auto simp: minDuration_def)
  then show ?thesis using assms by (simp add: int64_quo_def)
qed

lemma partialDeadline_unset:
  "IsZero deadline \<Longrightarrow> partialDeadline now deadline n = Some (deadline, None)"
  by (simp add: partialDeadline_def)

lemma partialDeadline_expired:
  "\<not> IsZero deadline \<Longrightarrow> time_Sub deadline now \<le> 0 \<Longrightarrow>
   partialDeadline now deadline n = Some (zeroTime, Some ErrTimeout)"
  by (simp add: partialDeadline_def)

lemma partialDeadline_budget:
  assumes "\<not> IsZero deadline" "0 < time_Sub deadline now" "0 < n"
  shows "partialDeadline now deadline n =
    Some (time_Add now
      (if time_Sub deadline now div n < 2 * Second
       then (if time_Sub deadline now < 2 * Second then time_Sub deadline now else 2 * Second)
       else time_Sub deadline now div n), None)"
proof -
  have "int64_quo (time_Sub deadline now) n = Some (time_Sub deadline now div n)"
    using assms time_Sub_range [of deadline now] by (intro int64_quo_pos) simp_all
  then show ?thesis
    using assms by (simp add: partialDeadline_def Let_def saneMinimum_def)
qed

text \<open>A positive count never makes the division panic.\<close>

lemma partialDeadline_returns:
  "0 < n \<Longrightarrow> \<exists>pd err. partialDeadline now deadline n = Some (pd, err)"
  by (auto simp: partialDeadline_def Let_def int64_quo_def)

text \<open>
  C1. For a positive count of remaining candidates: an unset (zero) overall deadline is
  returned as it is, with no error; a set deadline that \<open>now\<close> has reached gives the error
  Timeout; otherwise the result is \<open>now\<close> plus the budget, where the budget is the time
  remaining divided by the count, raised to exactly 2 seconds when the quotient is below
  2 seconds and at least 2 seconds remain, and to all the time remaining when less than 2
  seconds remain. The time remaining is \<open>deadline.Sub(now)\<close>, which is the difference of
  the two instants whenever that fits a duration. With a deadline 10 seconds
  ahead and 4 candidates the budget is 2.5 seconds; with 3 seconds and 4 candidates it is
  2 seconds; with a deadline 1 second in the past and 1 candidate the call fails with
  Timeout.
\<close>

theorem partialDeadline_spec:
  assumes "0 < n"
  shows "(IsZero deadline \<longrightarrow> partialDeadline now deadline n = Some (deadline, None)) \<and>
    (\<not> IsZero deadline \<and> time_Sub deadline now \<le> 0 \<longrightarrow>
       partialDeadline now deadline n = Some (zeroTime, Some ErrTimeout)) \<and>
    (\<not> IsZero deadline \<and> 0 < time_Sub deadline now \<longrightarrow>
       partialDeadline now deadline n =
         Some (time_Add now
           (if time_Sub deadline now div n < 2 * Second
            then (if time_Sub deadline now < 2 * Second then time_Sub deadline now
                  else 2 * Second)
            else time_Sub deadline now div n), None)) \<and>
    (\<not> IsZero (time_Add now (10 * Second)) \<longrightarrow>
       partialDeadline now (time_Add now (10 * Second)) 4 =
         Some (time_Add now (2500 * Millisecond), None)) \<and>
    (\<not> IsZero (time_Add now (3 * Second)) \<longrightarrow>
       partialDeadline now (time_Add now (3 * Second)) 4 =
         Some (time_Add now (2 * Second), None)) \<and>
    (\<not> IsZero (time_Add now (- Second)) \<longrightarrow>
       partialDeadline now (time_Add now (- Second)) 1 = Some (zeroTime, Some ErrTimeout)) \<and>
    (minDuration \<le> deadline - now \<and> deadline - now \<le> maxDuration \<longrightarrow>
       time_Sub deadline now = deadline - now)"
proof (intro conjI impI)
  show "time_Sub deadline now = deadline - now"
    if "minDuration \<le> deadline - now \<and> deadline - now \<le> maxDuration"
    using that by (simp add: time_Sub_def)
  show "partialDeadline now deadline n = Some (deadline, None)" if "IsZero deadline"
    using that by (rule partialDeadline_unset)
  show "partialDeadline now deadline n = Some (zeroTime, Some ErrTimeout)"
    if "\<not> IsZero deadline \<and> time_Sub deadline now \<le> 0"
    using that by (simp add: partialDeadline_expired)
  show "partialDeadline now deadline n =
         Some (time_Add now
           (if time_Sub deadline now div n < 2 * Second
            then (if time_Sub deadline now < 2 * Second then time_Sub deadline now
                  else 2 * Second)
            else time_Sub deadline now div n), None)"
    if "\<not> IsZero deadline \<and> 0 < time_Sub deadline now"
    using that assms by (intro partialDeadline_budget) simp_all
  show "partialDeadline now (time_Add now (10 * Second)) 4 =
         Some (time_Add now (2500 * Millisecond), None)"
    if "\<not> IsZero (time_Add now (10 * Second))"
    using that
    by (simp add: partialDeadline_def time_Sub_def time_Add_def int64_quo_def int64_wrap_def
        Second_def Millisecond_def saneMinimum_def minDuration_def maxDuration_def)
  show "partialDeadline now (time_Add now (3 * Second)) 4 =
         Some (time_Add now (2 * Second), None)"
    if "\<not> IsZero (time_Add now (3 * Second))"
    using that
    by (simp add: partialDeadline_def time_Sub_def time_Add_def int64_quo_def int64_wrap_def
        Second_def Millisecond_def saneMinimum_def minDuration_def maxDuration_def)
  show "partialDeadline now (time_Add now (- Second)) 1 = Some (zeroTime, Some ErrTimeout)"
    if "\<not> IsZero (time_Add now (- Second))"
    using that
    by (simp add: partialDeadline_def time_Sub_def time_Add_def int64_quo_def int64_wrap_def
        Second_def Millisecond_def saneMinimum_def minDuration_def maxDuration_def)
qed

theorem partialDeadline_spec_witness:
  "(0::int) < 4 \<and> \<not> IsZero 1000 \<and> \<not> IsZero (time_Add 7 (10 * Second)) \<and>
   \<not> IsZero (time_Add 7 (3 * Second)) \<and> \<not> IsZero (time_Add 7 (- Second)) \<and>
   0 < time_Sub 1000 7 \<and> time_Sub 1000 2000 \<le> 0 \<and> IsZero 0 \<and>
   minDuration \<le> 1000 - 7 \<and> 1000 - 7 \<le> maxDuration \<and> time_Sub 1000 7 = 1000 - 7 \<and>
   partialDeadline 7 0 4 = Some (0, None) \<and>
   partialDeadline 2000 1000 4 = Some (zeroTime, Some ErrTimeout) \<and>
   partialDeadline 7 1000 4 = Some (1000, None) \<and>
   partialDeadline 7 (time_Add 7 (10 * Second)) 4 = Some (2500000007, None) \<and>
   partialDeadline 7 (time_Add 7 (3 * Second)) 4 = Some (2000000007, None) \<and>
   partialDeadline 7 (time_Add 7 (- Second)) 1 = Some (zeroTime, Some ErrTimeout)"
proof -
  have n: "(0::int) < 4" by simp
  have z: "\<not> IsZero 1000" "\<not> IsZero (time_Add 7 (10 * Second))"
    "\<not> IsZero (time_Add 7 (3 * Second))" "\<not> IsZero (time_Add 7 (- Second))" "IsZero 0"
    by (simp_all add: IsZero_def zeroTime_def time_Add_def Second_def Millisecond_def)
  have s: "0 < time_Sub 1000 7" "time_Sub 1000 2000 \<le> 0" "time_Sub 1000 7 = 993"
    "minDuration \<le> 1000 - 7" "1000 - 7 \<le> maxDuration"
    by (simp_all add: time_Sub_def minDuration_def maxDuration_def)
  show ?thesis
    using n z s partialDeadline_spec [OF n, of 0 7] partialDeadline_spec [OF n, of 1000 2000]
      partialDeadline_spec [OF n, of 1000 7]
    using partialDeadline_spec [of 1 "time_Add 7 (- Second)" 7]
    by (simp add: time_Add_def Second_def Millisecond_def)
qed

section \<open>The serial dial: properties\<close>

lemma dialSerial_end_error: "dialSerial_end dp fe = (c, err) \<Longrightarrow> c = None \<and> err \<noteq> None"
  by (auto simp: dialSerial_end_def split: option.splits)

lemma dialSingle_not_both_nil:
  "dialSingle w i cx dp ra = (c, err) \<Longrightarrow> c \<noteq> None \<or> err \<noteq> None"
  by (auto simp: dialSingle_def Let_def split: Addr.splits prod.splits option.splits)

lemma dialSerial_loop_not_both_nil:
  "dialSerial_loop w ctx dp i fe ras = Some (tr, c, err) \<Longrightarrow> c \<noteq> None \<or> err \<noteq> None"
proof (induction ras arbitrary: i fe tr)
  case Nil
  then show ?case by (auto dest: dialSerial_end_error)
next
  case (Cons ra ras)
  show ?case
  proof (cases "ctx_Err ctx i")
    case (Some ce)
    with Cons.prems show ?thesis by auto
  next
    case None
    note nocancel = this
    show ?thesis
    proof (cases "partialDeadline (timeNow w i) (ctx_Deadline ctx) (int (length (ra # ras)))")
      case None
      with nocancel Cons.prems show ?thesis by simp
    next
      case (Some pr)
      obtain pd perr where pr: "pr = (pd, perr)" by (cases pr)
      show ?thesis
      proof (cases perr)
        case (Some e)
        with nocancel \<open>partialDeadline _ _ _ = Some pr\<close> pr Cons.prems show ?thesis
          by (auto dest: dialSerial_end_error)
      next
        case None
        obtain c' err' where ds: "dialSingle w i (dialCtx ctx pd) dp ra = (c', err')"
          by (cases "dialSingle w i (dialCtx ctx pd) dp ra")
        show ?thesis
        proof (cases err')
          case None
          with ds nocancel \<open>partialDeadline _ _ _ = Some pr\<close> pr \<open>perr = None\<close> Cons.prems
          show ?thesis by (auto dest: dialSingle_not_both_nil)
        next
          case (Some e)
          with ds nocancel \<open>partialDeadline _ _ _ = Some pr\<close> pr \<open>perr = None\<close> Cons.prems
          obtain tr' where "dialSerial_loop w ctx dp (Suc i)
              (case fe of None \<Rightarrow> Some e | Some e' \<Rightarrow> Some e') ras = Some (tr', c, err)"
            by (auto split: option.splits)
          then show ?thesis by (rule Cons.IH)
        qed
      qed
    qed
  qed
qed

text \<open>
  C10. With an empty candidate list \<open>dialSerial\<close> returns a nil connection together with
  an \<open>OpError\<close> that wraps \<open>errMissingAddress\<close> (the loop body, and with it the poll of
  the cancellation signal, is never entered); and on no candidate list does it return a
  nil connection together with a nil error.
\<close>

theorem dialSerial_no_candidates:
  "dialSerial w ctx dp [] =
     Some ([], None, Some (OpError ''dial'' (network dp) None None errMissingAddress)) \<and>
   (\<forall>attempts c err. dialSerial w ctx dp ras = Some (attempts, c, err) \<longrightarrow>
      c \<noteq> None \<or> err \<noteq> None)"
  by (auto simp: dialSerial_def dialSerial_end_def dest: dialSerial_loop_not_both_nil)

theorem dialSerial_no_candidates_witness:
  "dialSerial refusingWorld background plainDial [] =
     Some ([], None, Some (OpError ''dial'' ''srt'' None None errMissingAddress)) \<and>
   dialSerial refusingWorld background plainDial [endpoint4 1] =
     Some ([(endpoint4 1, None, Some (OpError ''dial'' ''srt'' None (Some (endpoint4 1))
               (OtherError ''connection refused'')))], None,
       Some (OpError ''dial'' ''srt'' None (Some (endpoint4 1))
               (OtherError ''connection refused'')))"
proof -
  have "dialSerial refusingWorld background plainDial [endpoint4 1] =
     Some ([(endpoint4 1, None, Some (OpError ''dial'' ''srt'' None (Some (endpoint4 1))
               (OtherError ''connection refused'')))], None,
       Some (OpError ''dial'' ''srt'' None (Some (endpoint4 1))
               (OtherError ''connection refused'')))"
    by (simp add: dialSerial_def refusingWorld_def background_def plainDial_def
        partialDeadline_def IsZero_def dialSingle_def endpoint4_def dialCtx_def Before_def
        dialSerial_end_def)
  then show ?thesis
    using dialSerial_no_candidates [of refusingWorld background plainDial "[endpoint4 1]"]
    by (simp add: plainDial_def)
qed

lemma partialDeadline_error:
  "partialDeadline now deadline n = Some (pd, Some e) \<Longrightarrow> e = ErrTimeout"
  by (auto simp: partialDeadline_def Let_def split: if_splits option.splits)

lemma dialSerial_iteration:
  obtains (cancel) ce where "ctx_Err ctx i = Some ce"
  | (timeout) pd where "ctx_Err ctx i = None"
      "partialDeadline (timeNow w i) (ctx_Deadline ctx) (int (length (ra # ras))) =
         Some (pd, Some ErrTimeout)"
  | (connect) pd c where "ctx_Err ctx i = None"
      "partialDeadline (timeNow w i) (ctx_Deadline ctx) (int (length (ra # ras))) =
         Some (pd, None)"
      "dialSingle w i (dialCtx ctx pd) dp ra = (c, None)"
  | (fail) pd c e where "ctx_Err ctx i = None"
      "partialDeadline (timeNow w i) (ctx_Deadline ctx) (int (length (ra # ras))) =
         Some (pd, None)"
      "dialSingle w i (dialCtx ctx pd) dp ra = (c, Some e)"
proof (cases "ctx_Err ctx i")
  case (Some ce)
  then show ?thesis by (rule cancel)
next
  case None
  obtain pd perr where pd: "partialDeadline (timeNow w i) (ctx_Deadline ctx)
      (int (length (ra # ras))) = Some (pd, perr)"
  proof -
    have "0 < int (length (ra # ras))" by simp
    from partialDeadline_returns [OF this] show ?thesis using that by blast
  qed
  show ?thesis
  proof (cases perr)
    case (Some e)
    with pd partialDeadline_error have "e = ErrTimeout" by blast
    with None pd Some show ?thesis by (intro timeout) auto
  next
    case nodl: None
    obtain c err where ds: "dialSingle w i (dialCtx ctx pd) dp ra = (c, err)"
      by (cases "dialSingle w i (dialCtx ctx pd) dp ra")
    show ?thesis
    proof (cases err)
      case None
      with \<open>ctx_Err ctx i = None\<close> pd nodl ds show ?thesis by (intro connect) auto
    next
      case (Some e)
      with \<open>ctx_Err ctx i = None\<close> pd nodl ds show ?thesis by (intro fail) auto
    qed
  qed
qed

lemma dialSerial_loop_cancel:
  "ctx_Err ctx i = Some ce \<Longrightarrow>
   dialSerial_loop w ctx dp i fe (ra # ras) =
     Some ([], None, Some (OpError ''dial'' (network dp) (LocalAddr dp) (Some ra) (mapErr w ce)))"
  by simp

lemma dialSerial_loop_timeout:
  "ctx_Err ctx i = None \<Longrightarrow>
   partialDeadline (timeNow w i) (ctx_Deadline ctx) (int (length (ra # ras))) =
     Some (pd, Some e) \<Longrightarrow>
   dialSerial_loop w ctx dp i fe (ra # ras) =
     Some ([], None, Some (case fe of
        None \<Rightarrow> OpError ''dial'' (network dp) (LocalAddr dp) (Some ra) e | Some e0 \<Rightarrow> e0))"
  by (simp add: dialSerial_end_def split: option.splits)

lemma dialSerial_loop_connect:
  "ctx_Err ctx i = None \<Longrightarrow>
   partialDeadline (timeNow w i) (ctx_Deadline ctx) (int (length (ra # ras))) =
     Some (pd, None) \<Longrightarrow>
   dialSingle w i (dialCtx ctx pd) dp ra = (c, None) \<Longrightarrow>
   dialSerial_loop w ctx dp i fe (ra # ras) = Some ([(ra, c, None)], c, None)"
  by simp

lemma dialSerial_loop_fail:
  "ctx_Err ctx i = None \<Longrightarrow>
   partialDeadline (timeNow w i) (ctx_Deadline ctx) (int (length (ra # ras))) =
     Some (pd, None) \<Longrightarrow>
   dialSingle w i (dialCtx ctx pd) dp ra = (c, Some e) \<Longrightarrow>
   dialSerial_loop w ctx dp i fe (ra # ras) =
     (case dialSerial_loop w ctx dp (Suc i) (case fe of None \<Rightarrow> Some e | Some e0 \<Rightarrow> Some e0) ras of
        None \<Rightarrow> None
      | Some (attempts, result) \<Rightarrow> Some ((ra, c, Some e) # attempts, result))"
  by simp

text \<open>The loop always returns: the count of remaining candidates is positive.\<close>

lemma dialSerial_loop_returns:
  "\<exists>attempts c err. dialSerial_loop w ctx dp i fe ras = Some (attempts, c, err)"
proof (induction ras arbitrary: i fe)
  case Nil
  show ?case by (cases "dialSerial_end dp fe") simp
next
  case (Cons ra ras)
  show ?case
  proof (cases rule: dialSerial_iteration [where ctx = ctx and i = i and w = w and ra = ra and ras = ras and dp = dp])
    case (cancel ce)
    then show ?thesis by (simp only: dialSerial_loop_cancel) blast
  next
    case (timeout pd)
    then show ?thesis by (simp only: dialSerial_loop_timeout) blast
  next
    case (connect pd c)
    then show ?thesis by (simp only: dialSerial_loop_connect) blast
  next
    case (fail pd c e)
    obtain attempts c' err' where
      "dialSerial_loop w ctx dp (Suc i) (case fe of None \<Rightarrow> Some e | Some e0 \<Rightarrow> Some e0) ras =
         Some (attempts, c', err')"
      using Cons.IH by blast
    with fail show ?thesis by (simp only: dialSerial_loop_fail) simp
  qed
qed

text \<open>The attempts are made on the candidates in order, from the first one on.\<close>

lemma dialSerial_loop_prefix:
  "dialSerial_loop w ctx dp i fe ras = Some (attempts, c, err) \<Longrightarrow>
   map fst attempts = take (length attempts) ras"
proof (induction ras arbitrary: i fe attempts)
  case Nil
  then show ?case by simp
next
  case (Cons ra ras)
  show ?case
  proof (cases rule: dialSerial_iteration [where ctx = ctx and i = i and w = w and ra = ra and ras = ras and dp = dp])
    case (cancel ce)
    with Cons.prems show ?thesis by (simp only: dialSerial_loop_cancel) auto
  next
    case (timeout pd)
    with Cons.prems show ?thesis by (simp only: dialSerial_loop_timeout) auto
  next
    case (connect pd c')
    with Cons.prems show ?thesis by (simp only: dialSerial_loop_connect) auto
  next
    case (fail pd c' e)
    with Cons.prems obtain rest where
      rest: "dialSerial_loop w ctx dp (Suc i) (case fe of None \<Rightarrow> Some e | Some e0 \<Rightarrow> Some e0) ras =
         Some (rest, c, err)" and "attempts = (ra, c', Some e) # rest"
      by (simp only: dialSerial_loop_fail) (auto split: option.splits)
    with Cons.IH [OF rest] show ?thesis by simp
  qed
qed

text \<open>A log with a success in it ends there, after failures only; the connection of the
  success is returned, with a nil error.\<close>

lemma dialSerial_loop_success:
  "dialSerial_loop w ctx dp i fe ras = Some (attempts, c, err) \<Longrightarrow>
   \<exists>a \<in> set attempts. snd (snd a) = None \<Longrightarrow>
   err = None \<and>
   (\<exists>failed. attempts = failed @ [(ras ! length failed, c, None)] \<and>
      (\<forall>a \<in> set failed. snd (snd a) \<noteq> None))"
proof (induction ras arbitrary: i fe attempts)
  case Nil
  then show ?case by simp
next
  case (Cons ra ras)
  show ?case
  proof (cases rule: dialSerial_iteration [where ctx = ctx and i = i and w = w and ra = ra and ras = ras and dp = dp])
    case (cancel ce)
    with Cons.prems show ?thesis by (simp only: dialSerial_loop_cancel) auto
  next
    case (timeout pd)
    with Cons.prems show ?thesis by (simp only: dialSerial_loop_timeout) auto
  next
    case (connect pd c')
    with Cons.prems(1) have "attempts = [(ra, c, None)]" "err = None"
      by (simp_all only: dialSerial_loop_connect) auto
    then show ?thesis by simp
  next
    case (fail pd c' e)
    with Cons.prems(1) obtain rest where
      rest: "dialSerial_loop w ctx dp (Suc i) (case fe of None \<Rightarrow> Some e | Some e0 \<Rightarrow> Some e0) ras =
         Some (rest, c, err)" and att: "attempts = (ra, c', Some e) # rest"
      by (simp only: dialSerial_loop_fail) (auto split: option.splits)
    from Cons.prems(2) att have "\<exists>a \<in> set rest. snd (snd a) = None" by simp
    from Cons.IH [OF rest this] obtain failed where
      "err = None" "rest = failed @ [(ras ! length failed, c, None)]"
      "\<forall>a \<in> set failed. snd (snd a) \<noteq> None" by blast
    with att have "attempts = ((ra, c', Some e) # failed) @
        [((ra # ras) ! length ((ra, c', Some e) # failed), c, None)]"
      "\<forall>a \<in> set ((ra, c', Some e) # failed). snd (snd a) \<noteq> None" by simp_all
    with \<open>err = None\<close> show ?thesis by blast
  qed
qed

text \<open>Once a first error is recorded, a run of failures with no cancellation returns
  it.\<close>

lemma dialSerial_loop_first_error:
  "dialSerial_loop w ctx dp i (Some e0) ras = Some (attempts, c, err) \<Longrightarrow>
   \<forall>a \<in> set attempts. snd (snd a) \<noteq> None \<Longrightarrow>
   \<forall>k < length ras. ctx_Err ctx (i + k) = None \<Longrightarrow>
   c = None \<and> err = Some e0"
proof (induction ras arbitrary: i attempts)
  case Nil
  then show ?case by (simp add: dialSerial_end_def)
next
  case (Cons ra ras)
  from Cons.prems(3) have here: "ctx_Err ctx i = None" by force
  from Cons.prems(3) have later: "\<forall>k < length ras. ctx_Err ctx (Suc i + k) = None" by force
  show ?case
  proof (cases rule: dialSerial_iteration [where ctx = ctx and i = i and w = w and ra = ra and ras = ras and dp = dp])
    case (cancel ce)
    with here show ?thesis by simp
  next
    case (timeout pd)
    with Cons.prems(1) show ?thesis by (simp only: dialSerial_loop_timeout) auto
  next
    case (connect pd c')
    with Cons.prems(1,2) show ?thesis by (simp only: dialSerial_loop_connect) auto
  next
    case (fail pd c' e)
    with Cons.prems(1) obtain rest where
      rest: "dialSerial_loop w ctx dp (Suc i) (Some e0) ras = Some (rest, c, err)"
      and att: "attempts = (ra, c', Some e) # rest"
      by (simp only: dialSerial_loop_fail) (auto split: option.splits)
    from Cons.prems(2) att have "\<forall>a \<in> set rest. snd (snd a) \<noteq> None" by simp
    from Cons.IH [OF rest this later] show ?thesis .
  qed
qed

text \<open>
  C2 (as amended). On a non-empty candidate list \<open>dialSerial\<close> returns, and its attempts are
  made on the candidates in order. If every attempt made fails, and the cancellation signal
  is not seen at the poll before any candidate after the first, it returns no connection
  and the first error of the loop: the error of the first attempt, whatever the later
  attempts report and also when the deadline allocator reports exhaustion partway through;
  when no attempt is made at all, the error given for the first candidate (cancellation
  seen at the first poll, or Timeout of the allocator). If an attempt succeeds, it is the
  last one made, all before it failed, and its connection is returned with a nil error:
  the remaining candidates are not attempted.
\<close>

theorem dialSerial_first_error_wins:
  assumes "ras = ra # rest"
  shows "\<exists>attempts c err. dialSerial w ctx dp ras = Some (attempts, c, err) \<and>
     map fst attempts = take (length attempts) ras \<and>
     ((\<forall>a \<in> set attempts. snd (snd a) \<noteq> None) \<and>
      (\<forall>i. 0 < i \<and> i < length ras \<longrightarrow> ctx_Err ctx i = None) \<longrightarrow>
        c = None \<and>
        err = (case attempts of
                 [] \<Rightarrow> Some (OpError ''dial'' (network dp) (LocalAddr dp) (Some ra)
                              (case ctx_Err ctx 0 of Some ce \<Rightarrow> mapErr w ce | None \<Rightarrow> ErrTimeout))
               | a # as \<Rightarrow> snd (snd a))) \<and>
     ((\<exists>a \<in> set attempts. snd (snd a) = None) \<longrightarrow>
        err = None \<and>
        (\<exists>failed. attempts = failed @ [(ras ! length failed, c, None)] \<and>
           (\<forall>a \<in> set failed. snd (snd a) \<noteq> None)))"
proof -
  obtain attempts c err where run: "dialSerial_loop w ctx dp 0 None ras = Some (attempts, c, err)"
    using dialSerial_loop_returns by blast
  have prefix: "map fst attempts = take (length attempts) ras"
    using run by (rule dialSerial_loop_prefix)
  have success: "err = None \<and>
        (\<exists>failed. attempts = failed @ [(ras ! length failed, c, None)] \<and>
           (\<forall>a \<in> set failed. snd (snd a) \<noteq> None))"
    if "\<exists>a \<in> set attempts. snd (snd a) = None"
    using run that by (rule dialSerial_loop_success)
  have failure: "c = None \<and>
        err = (case attempts of
                 [] \<Rightarrow> Some (OpError ''dial'' (network dp) (LocalAddr dp) (Some ra)
                              (case ctx_Err ctx 0 of Some ce \<Rightarrow> mapErr w ce | None \<Rightarrow> ErrTimeout))
               | a # as \<Rightarrow> snd (snd a))"
    if fails: "\<forall>a \<in> set attempts. snd (snd a) \<noteq> None"
      and nocancel: "\<forall>i. 0 < i \<and> i < length ras \<longrightarrow> ctx_Err ctx i = None"
  proof (cases rule: dialSerial_iteration [where ctx = ctx and i = 0 and w = w and ra = ra
        and ras = rest and dp = dp])
    case (cancel ce)
    with run assms show ?thesis by (simp only: dialSerial_loop_cancel) auto
  next
    case (timeout pd)
    with run assms show ?thesis by (simp only: dialSerial_loop_timeout) auto
  next
    case (connect pd c')
    with run assms have "attempts = [(ra, c', None)]"
      by (simp only: dialSerial_loop_connect) auto
    with fails show ?thesis by simp
  next
    case (fail pd c' e)
    with run assms obtain more where
      more: "dialSerial_loop w ctx dp (Suc 0) (Some e) rest = Some (more, c, err)"
      and att: "attempts = (ra, c', Some e) # more"
      by (simp only: dialSerial_loop_fail) (auto split: option.splits)
    from fails att have "\<forall>a \<in> set more. snd (snd a) \<noteq> None" by simp
    moreover from nocancel assms have "\<forall>k < length rest. ctx_Err ctx (Suc 0 + k) = None"
      by simp
    ultimately have "c = None \<and> err = Some e"
      using more by (intro dialSerial_loop_first_error)
    with att show ?thesis by simp
  qed
  from run prefix success failure show ?thesis
    unfolding dialSerial_def by blast
qed

lemma run_refused:
  "dialSerial refusingWorld background plainDial [endpoint4 1, endpoint4 2] =
     Some ([(endpoint4 1, None, Some (refused (endpoint4 1))),
            (endpoint4 2, None, Some (refused (endpoint4 2)))],
           None, Some (refused (endpoint4 1)))"
  by (simp add: dialSerial_def refusingWorld_def background_def plainDial_def
        partialDeadline_def IsZero_def dialSingle_def endpoint4_def dialCtx_def Before_def
        dialSerial_end_def refused_def)

lemma run_exhausted:
  "dialSerial slowWorld fourSeconds plainDial [endpoint4 1, endpoint4 2] =
     Some ([(endpoint4 1, None, Some (refused (endpoint4 1)))],
           None, Some (refused (endpoint4 1)))"
  by (simp add: dialSerial_def slowWorld_def fourSeconds_def plainDial_def
        partialDeadline_def IsZero_def dialSingle_def endpoint4_def dialCtx_def Before_def
        dialSerial_end_def refused_def zeroTime_def time_Sub_def time_Add_def int64_quo_def
        int64_wrap_def Second_def Millisecond_def saneMinimum_def minDuration_def maxDuration_def)

lemma run_second:
  "dialSerial secondConnects background plainDial [endpoint4 1, endpoint4 2, endpoint4 3] =
     Some ([(endpoint4 1, None, Some (refused (endpoint4 1))),
            (endpoint4 2, Some (Some 7), None)],
           Some (Some 7), None)"
  by (simp add: dialSerial_def secondConnects_def background_def plainDial_def
        partialDeadline_def IsZero_def dialSingle_def endpoint4_def dialCtx_def Before_def
        dialSerial_end_def refused_def)

text \<open>The claim as stated fails when the context is cancelled between two attempts:
  the first attempt is refused, the poll before the second candidate sees the cancellation,
  and the error returned is the cancellation attributed to the second candidate.\<close>

theorem dialSerial_first_error_wins_counterexample:
  "dialSerial refusingWorld cancelledAfterFirst plainDial [endpoint4 1, endpoint4 2] =
     Some ([(endpoint4 1, None, Some (refused (endpoint4 1)))], None,
           Some (OpError ''dial'' ''srt'' None (Some (endpoint4 2)) Canceled)) \<and>
   OpError ''dial'' ''srt'' None (Some (endpoint4 2)) Canceled \<noteq> refused (endpoint4 1)"
  by (simp add: dialSerial_def refusingWorld_def cancelledAfterFirst_def plainDial_def
        partialDeadline_def IsZero_def dialSingle_def endpoint4_def dialCtx_def Before_def
        dialSerial_end_def refused_def)

theorem dialSerial_first_error_wins_witness:
  "[endpoint4 1, endpoint4 2] = endpoint4 1 # [endpoint4 2] \<and>
   (\<forall>i. ctx_Err background i = None) \<and> (\<forall>i. ctx_Err fourSeconds i = None) \<and>
   dialSerial refusingWorld background plainDial [endpoint4 1, endpoint4 2] =
     Some ([(endpoint4 1, None, Some (refused (endpoint4 1))),
            (endpoint4 2, None, Some (refused (endpoint4 2)))],
           None, Some (refused (endpoint4 1))) \<and>
   dialSerial slowWorld fourSeconds plainDial [endpoint4 1, endpoint4 2] =
     Some ([(endpoint4 1, None, Some (refused (endpoint4 1)))],
           None, Some (refused (endpoint4 1))) \<and>
   dialSerial secondConnects background plainDial [endpoint4 1, endpoint4 2, endpoint4 3] =
     Some ([(endpoint4 1, None, Some (refused (endpoint4 1))),
            (endpoint4 2, Some (Some 7), None)],
           Some (Some 7), None)"
proof -
  have nocancel: "\<forall>i. ctx_Err background i = None" "\<forall>i. ctx_Err fourSeconds i = None"
    by (simp_all add: background_def fourSeconds_def)
  show ?thesis
    using nocancel run_refused run_exhausted run_second
      dialSerial_first_error_wins [of "[endpoint4 1, endpoint4 2]" "endpoint4 1"
        "[endpoint4 2]" refusingWorld background plainDial]
      dialSerial_first_error_wins [of "[endpoint4 1, endpoint4 2]" "endpoint4 1"
        "[endpoint4 2]" slowWorld fourSeconds plainDial]
      dialSerial_first_error_wins [of "[endpoint4 1, endpoint4 2, endpoint4 3]" "endpoint4 1"
        "[endpoint4 2, endpoint4 3]" secondConnects background plainDial]
    by simp
qed

section \<open>Racing: properties\<close>

lemma dialParallel_loop_append:
  "dialParallel_loop s (pre @ es) =
     (case dialParallel_loop s pre of Pending s' \<Rightarrow> dialParallel_loop s' es | Returned c e \<Rightarrow> Returned c e)"
  by (induction s pre rule: dialParallel_loop.induct) (simp_all add: Let_def)

lemma dialParallel_loop_timers:
  "dialParallel_loop s (replicate i FallbackTimer @ es) =
     dialParallel_loop (s\<lparr>effects := effects s @ replicate i (StartRacer False)\<rparr>) es"
proof (induction i arbitrary: s)
  case 0
  show ?case by simp
next
  case (Suc i)
  show ?case by (simp add: Suc.IH replicate_app_Cons_same)
qed

lemma dialParallel_loop_success:
  "dialParallel_loop s (Received p c None stopped # post) = Returned c None"
  by (simp add: startRacer_result_def)

lemma dialParallel_loop_primary_then_fallback:
  assumes "\<not> res_done (fallback s)"
  shows "dialParallel_loop s (Received True c1 (Some ep) st1 # replicate j FallbackTimer @
           Received False c2 (Some ef) st2 # post) = Returned None (Some ep)"
  using assms by (simp add: startRacer_result_def dialParallel_loop_timers Let_def)

lemma dialParallel_loop_fallback_then_primary:
  assumes "\<not> res_done (primary s)"
  shows "dialParallel_loop s (Received False c2 (Some ef) st2 # replicate j FallbackTimer @
           Received True c1 (Some ep) st1 # post) = Returned None (Some ep)"
  using assms by (simp add: startRacer_result_def dialParallel_loop_timers Let_def)

lemma dialParallel_loop_second_error:
  assumes "(if p then res_done (fallback s) else res_done (primary s))"
  shows "dialParallel_loop s (Received p c (Some e) stopped # post) =
     Returned None (if p then Some e else res_error (primary s))"
  using assms by (simp add: startRacer_result_def Let_def)

text \<open>What the loop has started: the fallback racer once for every timer event, the primary
  racer never again, and a reset of the timer only to zero.\<close>

lemma dialParallel_loop_effects:
  "dialParallel_loop s events = Pending s' \<Longrightarrow>
   \<exists>more. effects s' = effects s @ more \<and> set more \<subseteq> {StartRacer False, TimerReset 0} \<and>
     length (filter (\<lambda>e. e = StartRacer False) more) =
       length (filter (\<lambda>e. e = FallbackTimer) events)"
proof (induction s events rule: dialParallel_loop.induct)
  case (1 s)
  then show ?case by simp
next
  case (2 s events)
  from "2.prems" have "dialParallel_loop (s\<lparr>effects := effects s @ [StartRacer False]\<rparr>) events =
      Pending s'" by simp
  from "2.IH" [OF this] obtain more where
    "effects s' = (effects s @ [StartRacer False]) @ more"
    "set more \<subseteq> {StartRacer False, TimerReset 0}"
    "length (filter (\<lambda>e. e = StartRacer False) more) =
       length (filter (\<lambda>e. e = FallbackTimer) events)" by auto
  then show ?case by (intro exI [of _ "StartRacer False # more"]) simp
next
  case (3 s p c err stopped events)
  let ?res = "startRacer_result p c err"
  let ?s = "if res_primary ?res then s\<lparr>primary := ?res\<rparr> else s\<lparr>fallback := ?res\<rparr>"
  from "3.prems" have err: "res_error ?res \<noteq> None"
    and both: "\<not> (res_done (primary ?s) \<and> res_done (fallback ?s))"
    by (auto simp: Let_def split: if_splits)
  show ?case
  proof (cases "res_primary ?res \<and> stopped")
    case True
    with "3.prems" err both
    have "dialParallel_loop (?s\<lparr>effects := effects ?s @ [TimerReset 0]\<rparr>) events = Pending s'"
      by (simp add: Let_def split: if_splits)
    from "3.IH"(1) [OF refl err refl both True this] obtain more where
      "effects s' = effects (?s\<lparr>effects := effects ?s @ [TimerReset 0]\<rparr>) @ more"
      "set more \<subseteq> {StartRacer False, TimerReset 0}"
      "length (filter (\<lambda>e. e = StartRacer False) more) =
         length (filter (\<lambda>e. e = FallbackTimer) events)" by auto
    then show ?thesis by (intro exI [of _ "TimerReset 0 # more"]) (simp split: if_splits)
  next
    case False
    with "3.prems" err both have "dialParallel_loop ?s events = Pending s'"
      by (simp add: Let_def split: if_splits)
    from "3.IH"(2) [OF refl err refl both False this] obtain more where
      "effects s' = effects ?s @ more"
      "set more \<subseteq> {StartRacer False, TimerReset 0}"
      "length (filter (\<lambda>e. e = StartRacer False) more) =
         length (filter (\<lambda>e. e = FallbackTimer) events)" by auto
    then show ?thesis by (intro exI [of _ more]) (simp split: if_splits)
  qed
qed

text \<open>
  C4. Whatever the loop of \<open>dialParallel\<close> has consumed, as long as it has not returned, a
  result with a nil error is returned at once, with its connection, and nothing after it is
  consumed. When the primary and the fallback racer have both reported an error, the error
  of the primary racer is returned and the one of the fallback racer is dropped: in terms
  of the loop's variables (the second report arrives when the other racer is done), and
  for the races themselves (the two reports in either order, with any number of timer
  events before or between them).
\<close>

theorem dialParallel_results:
  assumes "fallbacks \<noteq> []"
  shows "(dialParallel w ctx dp primaries fallbacks pre = Some (Pending s) \<longrightarrow>
            dialParallel w ctx dp primaries fallbacks (pre @ Received p c None stopped # post) =
              Some (Returned c None) \<and>
            (res_done (primary s) \<longrightarrow>
               dialParallel w ctx dp primaries fallbacks
                 (pre @ Received False c (Some ef) stopped # post) =
                 Some (Returned None (res_error (primary s)))) \<and>
            (res_done (fallback s) \<longrightarrow>
               dialParallel w ctx dp primaries fallbacks
                 (pre @ Received True c (Some ep) stopped # post) =
                 Some (Returned None (Some ep)))) \<and>
         dialParallel w ctx dp primaries fallbacks
            (replicate i FallbackTimer @ Received True cp (Some ep) stp #
             replicate j FallbackTimer @ Received False cf (Some ef) stf # post) =
              Some (Returned None (Some ep)) \<and>
         dialParallel w ctx dp primaries fallbacks
            (replicate i FallbackTimer @ Received False cf (Some ef) stf #
             replicate j FallbackTimer @ Received True cp (Some ep) stp # post) =
              Some (Returned None (Some ep))"
proof -
  have loop: "dialParallel w ctx dp primaries fallbacks events =
      Some (dialParallel_loop (racing_start dp) events)" for events
    using assms by (simp add: dialParallel_def)
  have after: "dialParallel_loop (racing_start dp) (pre @ events) = dialParallel_loop s events"
    if "dialParallel_loop (racing_start dp) pre = Pending s" for events
    using that by (simp add: dialParallel_loop_append)
  let ?s = "(racing_start dp)\<lparr>effects := effects (racing_start dp) @ replicate i (StartRacer False)\<rparr>"
  have fresh: "\<not> res_done (primary ?s)" "\<not> res_done (fallback ?s)"
    by (simp_all add: racing_start_def zeroResult_def)
  show ?thesis
  proof (intro conjI impI)
    assume "dialParallel w ctx dp primaries fallbacks pre = Some (Pending s)"
    then have pre: "dialParallel_loop (racing_start dp) pre = Pending s" by (simp add: loop)
    show "dialParallel w ctx dp primaries fallbacks (pre @ Received p c None stopped # post) =
        Some (Returned c None)"
      by (simp only: loop after [OF pre] dialParallel_loop_success)
    show "dialParallel w ctx dp primaries fallbacks
        (pre @ Received False c (Some ef) stopped # post) =
        Some (Returned None (res_error (primary s)))" if "res_done (primary s)"
      using that
      by (simp add: loop after [OF pre] dialParallel_loop_second_error
          del: dialParallel_loop.simps)
    show "dialParallel w ctx dp primaries fallbacks
        (pre @ Received True c (Some ep) stopped # post) = Some (Returned None (Some ep))"
      if "res_done (fallback s)"
      using that
      by (simp add: loop after [OF pre] dialParallel_loop_second_error
          del: dialParallel_loop.simps)
  next
    show "dialParallel w ctx dp primaries fallbacks
        (replicate i FallbackTimer @ Received True cp (Some ep) stp #
         replicate j FallbackTimer @ Received False cf (Some ef) stf # post) =
        Some (Returned None (Some ep))"
      using dialParallel_loop_primary_then_fallback [OF fresh(2)]
      by (simp only: loop dialParallel_loop_timers)
  next
    show "dialParallel w ctx dp primaries fallbacks
        (replicate i FallbackTimer @ Received False cf (Some ef) stf #
         replicate j FallbackTimer @ Received True cp (Some ep) stp # post) =
        Some (Returned None (Some ep))"
      using dialParallel_loop_fallback_then_primary [OF fresh(1)]
      by (simp only: loop dialParallel_loop_timers)
  qed
qed

theorem dialParallel_results_witness:
  "[endpoint4 2] \<noteq> [] \<and> res_done (primary \<lparr>primary = refusedPrimary, fallback = zeroResult,
        effects = [StartRacer True, NewTimer (300 * Millisecond), TimerReset 0,
                   StartRacer False]\<rparr>) \<and>
   dialParallel refusingWorld background plainDial [endpoint4 1] [endpoint4 2]
     [Received True None (Some (refused (endpoint4 1))) True, FallbackTimer] =
     Some (Pending \<lparr>primary = refusedPrimary, fallback = zeroResult,
        effects = [StartRacer True, NewTimer (300 * Millisecond), TimerReset 0,
                   StartRacer False]\<rparr>) \<and>
   dialParallel refusingWorld background plainDial [endpoint4 1] [endpoint4 2]
     ([Received True None (Some (refused (endpoint4 1))) True, FallbackTimer] @
      Received False (Some (Some 7)) None False # []) =
     Some (Returned (Some (Some 7)) None) \<and>
   dialParallel refusingWorld background plainDial [endpoint4 1] [endpoint4 2]
     ([Received True None (Some (refused (endpoint4 1))) True, FallbackTimer] @
      Received False (Some (Some 7)) (Some (refused (endpoint4 2))) False # []) =
     Some (Returned None (Some (refused (endpoint4 1)))) \<and>
   dialParallel refusingWorld background plainDial [endpoint4 1] [endpoint4 2]
     (replicate 0 FallbackTimer @ Received True None (Some (refused (endpoint4 1))) True #
      replicate 1 FallbackTimer @ Received False None (Some (refused (endpoint4 2))) False # []) =
     Some (Returned None (Some (refused (endpoint4 1)))) \<and>
   dialParallel refusingWorld background plainDial [endpoint4 1] [endpoint4 2]
     (replicate 1 FallbackTimer @ Received False None (Some (refused (endpoint4 2))) False #
      replicate 0 FallbackTimer @ Received True None (Some (refused (endpoint4 1))) False # []) =
     Some (Returned None (Some (refused (endpoint4 1))))"
proof -
  have ne: "[endpoint4 2] \<noteq> []" by simp
  have pending: "dialParallel refusingWorld background plainDial [endpoint4 1] [endpoint4 2]
     [Received True None (Some (refused (endpoint4 1))) True, FallbackTimer] =
     Some (Pending \<lparr>primary = refusedPrimary, fallback = zeroResult,
        effects = [StartRacer True, NewTimer (300 * Millisecond), TimerReset 0,
                   StartRacer False]\<rparr>)"
    by (simp add: dialParallel_def racing_start_def startRacer_result_def zeroResult_def
        refusedPrimary_def fallbackDelay_def plainDial_def Let_def)
  have dn: "res_done (primary \<lparr>primary = refusedPrimary, fallback = zeroResult,
        effects = [StartRacer True, NewTimer (300 * Millisecond), TimerReset 0,
                   StartRacer False]\<rparr>)"
    "res_error (primary \<lparr>primary = refusedPrimary, fallback = zeroResult,
        effects = [StartRacer True, NewTimer (300 * Millisecond), TimerReset 0,
                   StartRacer False]\<rparr>) = Some (refused (endpoint4 1))"
    by (simp_all add: refusedPrimary_def)
  from pending ne dn show ?thesis
    using dialParallel_results [OF ne, where w = refusingWorld and ctx = background
        and dp = plainDial and primaries = "[endpoint4 1]"
        and pre = "[Received True None (Some (refused (endpoint4 1))) True, FallbackTimer]"
        and s = "\<lparr>primary = refusedPrimary, fallback = zeroResult,
          effects = [StartRacer True, NewTimer (300 * Millisecond), TimerReset 0,
                     StartRacer False]\<rparr>"
        and p = False and c = "Some (Some 7)" and stopped = False and post = "[]"
        and ef = "refused (endpoint4 2)" and i = 0 and cp = None
        and ep = "refused (endpoint4 1)" and stp = True and j = 1 and cf = None
        and stf = False]
      dialParallel_results [OF ne, where w = refusingWorld and ctx = background
        and dp = plainDial and primaries = "[endpoint4 1]"
        and pre = "[]" and s = "racing_start plainDial"
        and p = False and c = None and stopped = False and post = "[]"
        and ef = "refused (endpoint4 2)" and i = 1 and cp = None
        and ep = "refused (endpoint4 1)" and stp = False and j = 0 and cf = None
        and stf = False]
    by simp
qed

section \<open>Resolving the candidates: properties\<close>

lemma keptByHint_simps:
  "keptByHint h (OtherAddr n s) = False"
  "keptByHint h (SRTAddrPtr None) = True"
  "keptByHint h (SRTAddrPtr (Some a')) = (isWildcard (Some a') \<or> matchAddrFamily a' (IP h))"
  by (simp_all add: keptByHint_def)

lemma filterByHint_wildcard_hint:
  "isWildcard hp \<Longrightarrow> \<forall>a \<in> set addrs. \<exists>p. a = SRTAddrPtr p \<Longrightarrow>
   filterByHint (SRTAddrPtr hp) hp True naddrs addrs = Filtered (naddrs @ addrs)"
  by (induction addrs arbitrary: naddrs) auto

lemma filterByHint_endpoint_hint:
  "\<not> isWildcard (Some h) \<Longrightarrow> \<forall>a \<in> set addrs. Network a = ''srt'' \<Longrightarrow>
   filterByHint (SRTAddrPtr (Some h)) (Some h) False naddrs addrs =
     Filtered (naddrs @ filter (keptByHint h) addrs)"
proof (induction addrs arbitrary: naddrs)
  case Nil
  show ?case by simp
next
  case (Cons a addrs)
  then have IH: "\<And>naddrs. filterByHint (SRTAddrPtr (Some h)) (Some h) False naddrs addrs =
     Filtered (naddrs @ filter (keptByHint h) addrs)" by simp
  from Cons.prems have net: "Network a = ''srt''" by simp
  show ?case
  proof (cases a)
    case (OtherAddr n s)
    with net IH show ?thesis by (simp add: keptByHint_simps)
  next
    case (SRTAddrPtr p)
    show ?thesis
    proof (cases p)
      case None
      with SRTAddrPtr IH show ?thesis by (simp add: keptByHint_simps isWildcard_def)
    next
      case (Some a')
      with SRTAddrPtr IH show ?thesis by (simp add: keptByHint_simps)
    qed
  qed
qed

lemma filterByHint_mismatch:
  "\<exists>a \<in> set addrs. Network a \<noteq> ''srt'' \<Longrightarrow>
   filterByHint (SRTAddrPtr hp) hp (isWildcard hp) naddrs addrs =
     Mismatched (AddrError (Lit ''mismatched local address type'') (Addr_String (SRTAddrPtr hp)))"
proof (induction addrs arbitrary: naddrs)
  case Nil
  then show ?case by simp
next
  case (Cons a addrs)
  show ?case
  proof (cases "Network a = ''srt''")
    case False
    then show ?thesis by simp
  next
    case True
    with Cons.prems have "\<exists>a \<in> set addrs. Network a \<noteq> ''srt''" by simp
    then have IH: "\<And>naddrs. filterByHint (SRTAddrPtr hp) hp (isWildcard hp) naddrs addrs =
      Mismatched (AddrError (Lit ''mismatched local address type'') (Addr_String (SRTAddrPtr hp)))"
      by (rule Cons.IH)
    show ?thesis
    proof (cases a)
      case (OtherAddr n s)
      with True IH show ?thesis by simp
    next
      case (SRTAddrPtr p)
      show ?thesis
      proof (cases "\<not> isWildcard hp \<and> \<not> isWildcard p")
        case False
        with SRTAddrPtr IH show ?thesis by auto
      next
        case nw: True
        then obtain h a' where "hp = Some h" "p = Some a'"
          by (cases hp; cases p) (auto simp: isWildcard_def)
        with SRTAddrPtr IH nw show ?thesis by simp
      qed
    qed
  qed
qed

lemma resolveAddrList_dial_hint:
  assumes "netw = ''srt'' \<or> netw = ''srt4'' \<or> netw = ''srt6''" "addr \<noteq> []"
    "internetAddrList r ctx netw addr = (addrs, None)"
  shows "resolveAddrList r ctx ''dial'' netw addr (Some (SRTAddrPtr hp)) =
     (case filterByHint (SRTAddrPtr hp) hp (isWildcard hp) [] addrs of
        NilDereference \<Rightarrow> None
      | Mismatched e \<Rightarrow> Some ([], Some e)
      | Filtered naddrs \<Rightarrow>
          if naddrs = []
          then Some ([], Some (AddrError (ErrorText errNoSuitableAddress) (Addr_String (SRTAddrPtr hp))))
          else Some (naddrs, None))"
  using assms by (auto simp: resolveAddrList_def parseNetwork_def Let_def split: filtered.splits)

lemma hint4_not_wildcard: "\<not> isWildcard (Some hint4)"
  by (simp add: isWildcard_def hint4_def IsUnspecified_def ip_Equal_def IPv4zero_def
      IPv6unspecified_def v4InV6Prefix_def)

lemma unspecified6_wildcard: "isWildcard (Some unspecified6)"
  by (simp add: isWildcard_def unspecified6_def IsUnspecified_def ip_Equal_def
      IPv6unspecified_def)

lemma unspecified6_family: "\<not> matchAddrFamily unspecified6 (IP hint4)"
  by (simp add: matchAddrFamily_def unspecified6_def hint4_def To4_def To16_def ip_bytes_def isZeros_def)

text \<open>
  C5 (as amended). A network string other than "srt", "srt4" and "srt6" makes
  \<open>resolveAddrList\<close> fail with \<open>UnknownNetworkError\<close>, whatever the operation, the address
  and the hint; and in dial mode, with one of the three network strings, an empty address
  makes it fail with \<open>errMissingAddress\<close>.
\<close>

theorem resolveAddrList_validation:
  "(netw \<noteq> ''srt'' \<and> netw \<noteq> ''srt4'' \<and> netw \<noteq> ''srt6'' \<longrightarrow>
      resolveAddrList r ctx op netw addr hint = Some ([], Some (UnknownNetworkError netw))) \<and>
   ((netw = ''srt'' \<or> netw = ''srt4'' \<or> netw = ''srt6'') \<and> addr = [] \<longrightarrow>
      resolveAddrList r ctx ''dial'' netw addr hint = Some ([], Some errMissingAddress))"
  by (auto simp: resolveAddrList_def parseNetwork_def)

text \<open>The claim as stated fails on an unknown network with an empty address in dial mode:
  the network is checked first.\<close>

theorem resolveAddrList_validation_counterexample:
  "resolveAddrList (fixedResolver []) background ''dial'' ''tcp'' [] None =
     Some ([], Some (UnknownNetworkError ''tcp'')) \<and>
   resolveAddrList (fixedResolver []) background ''dial'' ''tcp'' [] None \<noteq>
     Some ([], Some errMissingAddress)"
  by (simp add: resolveAddrList_def parseNetwork_def)

theorem resolveAddrList_validation_witness:
  "''tcp'' \<noteq> ''srt'' \<and> ''tcp'' \<noteq> ''srt4'' \<and> ''tcp'' \<noteq> ''srt6'' \<and>
   resolveAddrList (fixedResolver [endpoint4 1]) background ''listen'' ''tcp'' ''host:9000'' None =
     Some ([], Some (UnknownNetworkError ''tcp'')) \<and>
   resolveAddrList (fixedResolver [endpoint4 1]) background ''dial'' ''srt6'' [] None =
     Some ([], Some errMissingAddress)"
  using resolveAddrList_validation [of "''tcp''" "fixedResolver [endpoint4 1]" background
      "''listen''" "''host:9000''" None]
    resolveAddrList_validation [of "''srt6''" "fixedResolver [endpoint4 1]" background
      "''dial''" "[]" None]
  by simp

text \<open>
  C6. When the collaborator \<open>internetAddrList\<close> keeps the contract of the data model (never an
  empty list with a nil error), a call of \<open>resolveAddrList\<close> that returns a nil error returns
  a non-empty list: the collaborator's list is passed on as it is, and the hint filter
  turns an empty result into an error.
\<close>

theorem resolveAddrList_never_empty:
  assumes "neverEmptyOnSuccess r"
    and "resolveAddrList r ctx op netw addr hint = Some (addrs, None)"
  shows "addrs \<noteq> []"
proof -
  obtain afnet proto perr where pn: "parseNetwork ctx netw = (afnet, proto, perr)"
    by (cases "parseNetwork ctx netw") auto
  obtain found err where ia: "internetAddrList r ctx afnet addr = (found, err)"
    by (cases "internetAddrList r ctx afnet addr")
  from assms(1) ia have found: "err = None \<Longrightarrow> found \<noteq> []"
    by (auto simp: neverEmptyOnSuccess_def)
  from assms(2) pn ia found show ?thesis
    by (auto simp: resolveAddrList_def Let_def
        split: option.splits if_splits filtered.splits)
qed

theorem resolveAddrList_never_empty_witness:
  "neverEmptyOnSuccess (fixedResolver [endpoint4 1]) \<and>
   resolveAddrList (fixedResolver [endpoint4 1]) background ''listen'' ''srt'' '':9000'' None =
     Some ([endpoint4 1], None) \<and>
   [endpoint4 1] \<noteq> []"
proof -
  have c: "neverEmptyOnSuccess (fixedResolver [endpoint4 1])"
    by (simp add: neverEmptyOnSuccess_def fixedResolver_def)
  have r: "resolveAddrList (fixedResolver [endpoint4 1]) background ''listen'' ''srt'' '':9000'' None =
     Some ([endpoint4 1], None)"
    by (simp add: resolveAddrList_def parseNetwork_def fixedResolver_def)
  from c r resolveAddrList_never_empty [OF c r] show ?thesis by simp
qed

text \<open>
  C3 (as amended). In dial mode, with a known network, an address and the candidates
  \<open>addrs\<close> found by the collaborator: for a hint that is an endpoint and not wildcard, when
  no candidate is of another network kind, the result is the candidates that are wildcard
  themselves or of the family of the hint, in their order, and the error
  \<open>errNoSuitableAddress\<close> (in an \<open>AddrError\<close>) when none is left; a candidate whose network
  kind is not the one of the hint makes the call fail with the \<open>AddrError\<close> "mismatched
  local address type"; with a wildcard hint the endpoints are returned as they are.
\<close>

theorem resolveAddrList_hint_filter:
  assumes "netw = ''srt'' \<or> netw = ''srt4'' \<or> netw = ''srt6''" and "addr \<noteq> []"
    and "internetAddrList r ctx netw addr = (addrs, None)"
  shows "(\<not> isWildcard (Some h) \<and> (\<forall>a \<in> set addrs. Network a = Network (SRTAddrPtr (Some h))) \<longrightarrow>
       resolveAddrList r ctx ''dial'' netw addr (Some (SRTAddrPtr (Some h))) =
         (if filter (keptByHint h) addrs = []
          then Some ([], Some (AddrError (ErrorText errNoSuitableAddress) (EndpointText h)))
          else Some (filter (keptByHint h) addrs, None))) \<and>
    ((\<exists>a \<in> set addrs. Network a \<noteq> Network (SRTAddrPtr hp)) \<longrightarrow>
       resolveAddrList r ctx ''dial'' netw addr (Some (SRTAddrPtr hp)) =
         Some ([], Some (AddrError (Lit ''mismatched local address type'')
                           (Addr_String (SRTAddrPtr hp))))) \<and>
    (isWildcard hp \<and> (\<forall>a \<in> set addrs. \<exists>p. a = SRTAddrPtr p) \<longrightarrow>
       resolveAddrList r ctx ''dial'' netw addr (Some (SRTAddrPtr hp)) =
         (if addrs = []
          then Some ([], Some (AddrError (ErrorText errNoSuitableAddress)
                                 (Addr_String (SRTAddrPtr hp))))
          else Some (addrs, None))) \<and>
    (\<forall>a. keptByHint h (SRTAddrPtr (Some a)) \<longleftrightarrow>
       isWildcard (Some a) \<or> matchAddrFamily a (IP h))"
proof (intro conjI impI)
  show "\<forall>a. keptByHint h (SRTAddrPtr (Some a)) \<longleftrightarrow>
       isWildcard (Some a) \<or> matchAddrFamily a (IP h)"
    by (simp add: keptByHint_simps)
next
  assume "\<not> isWildcard (Some h) \<and> (\<forall>a \<in> set addrs. Network a = Network (SRTAddrPtr (Some h)))"
  then have "filterByHint (SRTAddrPtr (Some h)) (Some h) (isWildcard (Some h)) [] addrs =
      Filtered ([] @ filter (keptByHint h) addrs)"
    by (simp add: filterByHint_endpoint_hint)
  then show "resolveAddrList r ctx ''dial'' netw addr (Some (SRTAddrPtr (Some h))) =
         (if filter (keptByHint h) addrs = []
          then Some ([], Some (AddrError (ErrorText errNoSuitableAddress) (EndpointText h)))
          else Some (filter (keptByHint h) addrs, None))"
    by (simp add: resolveAddrList_dial_hint [OF assms])
next
  assume "\<exists>a \<in> set addrs. Network a \<noteq> Network (SRTAddrPtr hp)"
  then have "filterByHint (SRTAddrPtr hp) hp (isWildcard hp) [] addrs =
     Mismatched (AddrError (Lit ''mismatched local address type'') (Addr_String (SRTAddrPtr hp)))"
    by (intro filterByHint_mismatch) simp
  then show "resolveAddrList r ctx ''dial'' netw addr (Some (SRTAddrPtr hp)) =
         Some ([], Some (AddrError (Lit ''mismatched local address type'')
                           (Addr_String (SRTAddrPtr hp))))"
    by (simp add: resolveAddrList_dial_hint [OF assms])
next
  assume w: "isWildcard hp \<and> (\<forall>a \<in> set addrs. \<exists>p. a = SRTAddrPtr p)"
  then have "filterByHint (SRTAddrPtr hp) hp (isWildcard hp) [] addrs = Filtered ([] @ addrs)"
    using filterByHint_wildcard_hint [of hp addrs "[]"] by simp
  then show "resolveAddrList r ctx ''dial'' netw addr (Some (SRTAddrPtr hp)) =
         (if addrs = []
          then Some ([], Some (AddrError (ErrorText errNoSuitableAddress)
                                 (Addr_String (SRTAddrPtr hp))))
          else Some (addrs, None))"
    by (simp add: resolveAddrList_dial_hint [OF assms])
qed

text \<open>The claim as stated fails on a wildcard candidate: with the IPv4 hint \<open>10.0.0.1\<close>, the
  candidate \<open>[::]:9000\<close> is of the other family, and it is kept.\<close>

theorem resolveAddrList_hint_filter_counterexample:
  "\<not> isWildcard (Some hint4) \<and> \<not> matchAddrFamily unspecified6 (IP hint4) \<and>
   resolveAddrList (fixedResolver [SRTAddrPtr (Some unspecified6)]) background ''dial'' ''srt''
     ''host:9000'' (Some (SRTAddrPtr (Some hint4))) =
     Some ([SRTAddrPtr (Some unspecified6)], None)"
  using hint4_not_wildcard unspecified6_wildcard unspecified6_family
  by (simp add: resolveAddrList_def parseNetwork_def fixedResolver_def)

lemma kept_examples:
  "keptByHint hint4 (SRTAddrPtr (Some unspecified6))" "\<not> keptByHint hint4 endpoint6"
  "keptByHint hint4 (endpoint4 2)"
    using unspecified6_wildcard
    by (simp_all add: keptByHint_def endpoint6_def endpoint4_def matchAddrFamily_def hint4_def
        To4_def To16_def ip_bytes_def isZeros_def isWildcard_def IsUnspecified_def ip_Equal_def
        IPv4zero_def IPv6unspecified_def v4InV6Prefix_def)

theorem resolveAddrList_hint_filter_witness:
  "\<not> isWildcard (Some hint4) \<and> isWildcard (Some anyLocal4) \<and>
   internetAddrList (fixedResolver [SRTAddrPtr (Some unspecified6), endpoint6, endpoint4 2])
     background ''srt'' ''host:9000'' =
     ([SRTAddrPtr (Some unspecified6), endpoint6, endpoint4 2], None) \<and>
   resolveAddrList (fixedResolver [SRTAddrPtr (Some unspecified6), endpoint6, endpoint4 2])
     background ''dial'' ''srt'' ''host:9000'' (Some (SRTAddrPtr (Some hint4))) =
     Some ([SRTAddrPtr (Some unspecified6), endpoint4 2], None) \<and>
   resolveAddrList (fixedResolver [endpoint6]) background ''dial'' ''srt'' ''host:9000''
     (Some (SRTAddrPtr (Some hint4))) =
     Some ([], Some (AddrError (ErrorText errNoSuitableAddress) (EndpointText hint4))) \<and>
   resolveAddrList (fixedResolver [endpoint6, OtherAddr ''udp'' ''10.0.0.9:9000''])
     background ''dial'' ''srt'' ''host:9000'' (Some (SRTAddrPtr (Some hint4))) =
     Some ([], Some (AddrError (Lit ''mismatched local address type'') (EndpointText hint4))) \<and>
   resolveAddrList (fixedResolver [endpoint6, endpoint4 2]) background ''dial'' ''srt''
     ''host:9000'' (Some (SRTAddrPtr (Some anyLocal4))) =
     Some ([endpoint6, endpoint4 2], None)"
proof -
  have n: "''srt'' = ''srt'' \<or> ''srt'' = ''srt4'' \<or> ''srt'' = ''srt6''"
    and a: "''host:9000'' \<noteq> []" by simp_all
  have i: "internetAddrList (fixedResolver addrs) background ''srt'' ''host:9000'' = (addrs, None)"
    for addrs by (simp add: fixedResolver_def)
  have e: "endpoint6 = SRTAddrPtr (Some
     \<lparr>IP = Some [0x20, 0x01, 0x0d, 0xb8, 0, 0, 0, 0, 0, 0, 0, 0, 0, 0, 0, 1],
      Port = 9000, Zone = []\<rparr>)" "endpoint4 2 = SRTAddrPtr (Some \<lparr>IP = Some [10, 0, 0, 2], Port = 9000, Zone = []\<rparr>)"
    by (simp_all add: endpoint6_def endpoint4_def)
  have w: "isWildcard (Some anyLocal4)"
    by (simp add: isWildcard_def anyLocal4_def IsUnspecified_def ip_Equal_def IPv4zero_def
        v4InV6Prefix_def)
  show ?thesis
    using hint4_not_wildcard w i kept_examples
      resolveAddrList_hint_filter [where netw = "''srt''" and addr = "''host:9000''"
        and r = "fixedResolver [SRTAddrPtr (Some unspecified6), endpoint6, endpoint4 2]"
        and ctx = background and addrs = "[SRTAddrPtr (Some unspecified6), endpoint6, endpoint4 2]"
        and h = hint4 and hp = "None", OF n a i]
      resolveAddrList_hint_filter [where netw = "''srt''" and addr = "''host:9000''"
        and r = "fixedResolver [endpoint6]"
        and ctx = background and addrs = "[endpoint6]"
        and h = hint4 and hp = "None", OF n a i]
      resolveAddrList_hint_filter [where netw = "''srt''" and addr = "''host:9000''"
        and r = "fixedResolver [endpoint6, OtherAddr ''udp'' ''10.0.0.9:9000'']"
        and ctx = background and addrs = "[endpoint6, OtherAddr ''udp'' ''10.0.0.9:9000'']"
        and h = hint4 and hp = "Some hint4", OF n a i]
      resolveAddrList_hint_filter [where netw = "''srt''" and addr = "''host:9000''"
        and r = "fixedResolver [endpoint6, endpoint4 2]"
        and ctx = background and addrs = "[endpoint6, endpoint4 2]"
        and h = hint4 and hp = "Some anyLocal4", OF n a i]
    by (simp add: e)
qed

lemma set_filter_keptByHint:
  "SRTAddrPtr p \<in> set (filter (keptByHint h) addrs) \<longleftrightarrow>
   SRTAddrPtr p \<in> set addrs \<and>
   (isWildcard p \<or> (\<exists>a. p = Some a \<and> matchAddrFamily a (IP h)))"
  by (cases p) (auto simp: keptByHint_simps isWildcard_def)

text \<open>
  C9. In dial mode with a hint that is an endpoint and not wildcard (and no candidate of
  another network kind, which would fail the call), a candidate endpoint that is wildcard is
  in the result, and the call succeeds, whatever its family; a candidate endpoint that is
  not wildcard and whose family does not match the hint is not in the result; and these
  are the only endpoints dropped.
\<close>

theorem wildcard_candidate_retained:
  assumes "netw = ''srt'' \<or> netw = ''srt4'' \<or> netw = ''srt6''" and "addr \<noteq> []"
    and "internetAddrList r ctx netw addr = (addrs, None)"
    and "\<not> isWildcard (Some h)"
    and "\<forall>a \<in> set addrs. Network a = ''srt''"
  shows "\<exists>naddrs err.
     resolveAddrList r ctx ''dial'' netw addr (Some (SRTAddrPtr (Some h))) = Some (naddrs, err) \<and>
     (\<forall>p. SRTAddrPtr p \<in> set addrs \<and> isWildcard p \<longrightarrow>
          err = None \<and> SRTAddrPtr p \<in> set naddrs) \<and>
     (\<forall>a. SRTAddrPtr (Some a) \<in> set addrs \<and> \<not> isWildcard (Some a) \<and>
          \<not> matchAddrFamily a (IP h) \<longrightarrow> SRTAddrPtr (Some a) \<notin> set naddrs) \<and>
     (\<forall>p. SRTAddrPtr p \<in> set addrs \<and> SRTAddrPtr p \<notin> set naddrs \<longrightarrow>
          (\<exists>a. p = Some a \<and> \<not> isWildcard p \<and> \<not> matchAddrFamily a (IP h)))"
proof -
  let ?kept = "filter (keptByHint h) addrs"
  have wn: "isWildcard None" by (simp add: isWildcard_def)
  have flt: "filterByHint (SRTAddrPtr (Some h)) (Some h) (isWildcard (Some h)) [] addrs =
      Filtered ([] @ ?kept)"
    using assms(4,5) by (simp add: filterByHint_endpoint_hint)
  show ?thesis
  proof (cases "?kept = []")
    case True
    then have res: "resolveAddrList r ctx ''dial'' netw addr (Some (SRTAddrPtr (Some h))) =
      Some ([], Some (AddrError (ErrorText errNoSuitableAddress) (EndpointText h)))"
      using flt by (simp add: resolveAddrList_dial_hint [OF assms(1-3)])
    have none: "\<not> (SRTAddrPtr p \<in> set addrs \<and>
        (isWildcard p \<or> (\<exists>a. p = Some a \<and> matchAddrFamily a (IP h))))" for p
    proof -
      have "SRTAddrPtr p \<notin> set ?kept" by (simp add: True)
      then show ?thesis unfolding set_filter_keptByHint .
    qed
    have dropped: "\<exists>a. p = Some a \<and> \<not> isWildcard p \<and> \<not> matchAddrFamily a (IP h)"
      if "SRTAddrPtr p \<in> set addrs" for p
      using none [of p] that wn by (cases p) auto
    show ?thesis
    proof (intro exI conjI)
      show "resolveAddrList r ctx ''dial'' netw addr (Some (SRTAddrPtr (Some h))) =
        Some ([], Some (AddrError (ErrorText errNoSuitableAddress) (EndpointText h)))"
        by (rule res)
      show "\<forall>p. SRTAddrPtr p \<in> set addrs \<and> isWildcard p \<longrightarrow>
          Some (AddrError (ErrorText errNoSuitableAddress) (EndpointText h)) = None \<and>
          SRTAddrPtr p \<in> set []"
        using none by blast
      show "\<forall>a. SRTAddrPtr (Some a) \<in> set addrs \<and> \<not> isWildcard (Some a) \<and>
          \<not> matchAddrFamily a (IP h) \<longrightarrow> SRTAddrPtr (Some a) \<notin> set []"
        by simp
      show "\<forall>p. SRTAddrPtr p \<in> set addrs \<and> SRTAddrPtr p \<notin> set [] \<longrightarrow>
          (\<exists>a. p = Some a \<and> \<not> isWildcard p \<and> \<not> matchAddrFamily a (IP h))"
        using dropped by blast
    qed
  next
    case False
    then have res: "resolveAddrList r ctx ''dial'' netw addr (Some (SRTAddrPtr (Some h))) =
      Some (?kept, None)"
      using flt by (simp add: resolveAddrList_dial_hint [OF assms(1-3)])
    have "\<exists>a. p = Some a \<and> \<not> isWildcard p \<and> \<not> matchAddrFamily a (IP h)"
      if "SRTAddrPtr p \<in> set addrs" "SRTAddrPtr p \<notin> set ?kept" for p
      using set_filter_keptByHint [of p h addrs] that wn by (cases p) auto
    moreover have "SRTAddrPtr (Some a) \<notin> set ?kept"
      if "\<not> isWildcard (Some a)" "\<not> matchAddrFamily a (IP h)" for a
      using set_filter_keptByHint [of "Some a" h addrs] that by simp
    moreover have "SRTAddrPtr p \<in> set ?kept" if "SRTAddrPtr p \<in> set addrs" "isWildcard p" for p
      using set_filter_keptByHint [of p h addrs] that by simp
    ultimately show ?thesis using res by blast
  qed
qed

theorem wildcard_candidate_retained_witness:
  "\<not> isWildcard (Some hint4) \<and> isWildcard (Some unspecified6) \<and>
   \<not> matchAddrFamily unspecified6 (IP hint4) \<and>
   (\<forall>a. a \<in> set [endpoint6, SRTAddrPtr (Some unspecified6), endpoint4 2] \<longleftrightarrow>
        a = endpoint6 \<or> a = SRTAddrPtr (Some unspecified6) \<or> a = endpoint4 2) \<and>
   Network endpoint6 = ''srt'' \<and> Network (SRTAddrPtr (Some unspecified6)) = ''srt'' \<and>
   Network (endpoint4 2) = ''srt'' \<and>
   resolveAddrList (fixedResolver [endpoint6, SRTAddrPtr (Some unspecified6), endpoint4 2])
     background ''dial'' ''srt'' ''host:9000'' (Some (SRTAddrPtr (Some hint4))) =
     Some ([SRTAddrPtr (Some unspecified6), endpoint4 2], None)"
proof -
  have n: "''srt'' = ''srt'' \<or> ''srt'' = ''srt4'' \<or> ''srt'' = ''srt6''"
    and a: "''host:9000'' \<noteq> []" by simp_all
  have i: "internetAddrList (fixedResolver [endpoint6, SRTAddrPtr (Some unspecified6), endpoint4 2])
      background ''srt'' ''host:9000'' =
      ([endpoint6, SRTAddrPtr (Some unspecified6), endpoint4 2], None)"
    by (simp add: fixedResolver_def)
  have s: "\<forall>a \<in> set [endpoint6, SRTAddrPtr (Some unspecified6), endpoint4 2]. Network a = ''srt''"
    by (simp add: endpoint6_def endpoint4_def)
  have r: "resolveAddrList (fixedResolver [endpoint6, SRTAddrPtr (Some unspecified6), endpoint4 2])
     background ''dial'' ''srt'' ''host:9000'' (Some (SRTAddrPtr (Some hint4))) =
     Some ([SRTAddrPtr (Some unspecified6), endpoint4 2], None)"
  proof -
    have "filterByHint (SRTAddrPtr (Some hint4)) (Some hint4) False []
        [endpoint6, SRTAddrPtr (Some unspecified6), endpoint4 2] =
      Filtered ([] @ filter (keptByHint hint4)
        [endpoint6, SRTAddrPtr (Some unspecified6), endpoint4 2])"
      using hint4_not_wildcard s by (intro filterByHint_endpoint_hint)
    then show ?thesis
      by (simp add: resolveAddrList_dial_hint [OF n a i] kept_examples hint4_not_wildcard
          del: filterByHint.simps)
  qed
  from wildcard_candidate_retained [OF n a i hint4_not_wildcard s] r
    hint4_not_wildcard unspecified6_wildcard unspecified6_family s
  show ?thesis by auto
qed

end
